theory Spec2Isabelle
  imports Complex_Main
begin

section \<open>JavaScript values\<close>

text \<open>
  The routes work on untyped JSON payloads (\<^verbatim>\<open>any\<close>).  A value is one of the JSON
  shapes, plus \<^verbatim>\<open>undefined\<close> (the result of reading an absent property) and
  \<^verbatim>\<open>NaN\<close> (the result of a failed numeric parse) and the two infinities
  (\<open>JInf True\<close> is the negative one).  Numbers are exact decimal values; the rounding
  and the overflow of IEEE doubles are not part of the model.  An object is an
  association list in key order.
\<close>

datatype json =
    JUndefined
  | JNull
  | JBool bool
  | JNum rat
  | JNaN
  | JInf bool
  | JStr string
  | JArr "json list"
  | JObj "(string \<times> json) list"

datatype error =
    Error string
  | TypeError string
  | SyntaxError string
  | AbortError string

text \<open>Truthiness, as used by \<^verbatim>\<open>!x\<close>, \<^verbatim>\<open>a && b\<close> and \<^verbatim>\<open>a || b\<close>.\<close>

fun truthy :: "json \<Rightarrow> bool" where
  "truthy JUndefined = False"
| "truthy JNull = False"
| "truthy (JBool b) = b"
| "truthy (JNum r) = (r \<noteq> 0)"
| "truthy JNaN = False"
| "truthy (JInf neg) = True"
| "truthy (JStr s) = (s \<noteq> [])"
| "truthy (JArr xs) = True"
| "truthy (JObj kvs) = True"

text \<open>\<^verbatim>\<open>a || b\<close>\<close>

definition jor :: "json \<Rightarrow> json \<Rightarrow> json" where
  "jor a b = (if truthy a then a else b)"

text \<open>
  Property read \<^verbatim>\<open>v.k\<close> for the property names the routes use (none of them is
  \<^verbatim>\<open>length\<close> or an index): an object yields the stored value or
  \<^verbatim>\<open>undefined\<close>, \<^verbatim>\<open>null\<close> and \<^verbatim>\<open>undefined\<close> throw a TypeError, every other
  value yields \<^verbatim>\<open>undefined\<close>.
\<close>

fun alookup :: "(string \<times> json) list \<Rightarrow> string \<Rightarrow> json" where
  "alookup [] k = JUndefined"
| "alookup ((k', v) # kvs) k = (if k' = k then v else alookup kvs k)"

fun getprop :: "json \<Rightarrow> string \<Rightarrow> error + json" where
  "getprop JUndefined k = Inl (TypeError ''Cannot read properties of undefined'')"
| "getprop JNull k = Inl (TypeError ''Cannot read properties of null'')"
| "getprop (JObj kvs) k = Inr (alookup kvs k)"
| "getprop v k = Inr JUndefined"

text \<open>Optional chaining \<^verbatim>\<open>v?.k\<close>: never throws.\<close>

fun oprop :: "json \<Rightarrow> string \<Rightarrow> json" where
  "oprop (JObj kvs) k = alookup kvs k"
| "oprop v k = JUndefined"

subsection \<open>Decimal strings\<close>

definition digit_char :: "nat \<Rightarrow> char" where
  "digit_char d = ''0123456789'' ! (d mod 10)"

function string_of_nat :: "nat \<Rightarrow> string" where
  "string_of_nat n =
     (if n < 10 then [digit_char n] else string_of_nat (n div 10) @ [digit_char (n mod 10)])"
  by pat_completeness auto
termination
  by (relation "measure id") auto

declare string_of_nat.simps [simp del]

text \<open>\<^verbatim>\<open>s.padStart(2, '0')\<close>\<close>

definition padStart2 :: "string \<Rightarrow> string" where
  "padStart2 s = replicate (2 - length s) CHR ''0'' @ s"

text \<open>White space as \<^verbatim>\<open>trim\<close>, \<^verbatim>\<open>\s\<close> and the numeric parsers see it (8-bit part).\<close>

definition is_space :: "char \<Rightarrow> bool" where
  "is_space c = (c \<in> set [CHR 0x09, CHR 0x0A, CHR 0x0B, CHR 0x0C, CHR 0x0D, CHR 0x20, CHR 0xA0])"

definition trim :: "string \<Rightarrow> string" where
  "trim s = rev (dropWhile is_space (rev (dropWhile is_space s)))"

definition is_digit :: "char \<Rightarrow> bool" where
  "is_digit c = (c \<in> set ''0123456789'')"

definition digit_val :: "char \<Rightarrow> nat" where
  "digit_val c = of_char c - 48"

fun nat_of_digits :: "nat \<Rightarrow> string \<Rightarrow> nat" where
  "nat_of_digits acc [] = acc"
| "nat_of_digits acc (c # cs) = nat_of_digits (10 * acc + digit_val c) cs"


subsection \<open>The numeric parsers\<close>

text \<open>
  \<^verbatim>\<open>parseInt(s)\<close> on a string: skip leading white space, read an optional sign, a
  \<^verbatim>\<open>0x\<close> prefix selects radix 16, then the longest run of digits; no digit gives
  \<^verbatim>\<open>NaN\<close>.
\<close>

definition hex_val :: "char \<Rightarrow> nat option" where
  "hex_val c =
     (if is_digit c then Some (digit_val c)
      else if c \<in> set ''abcdef'' then Some (of_char c - 87)
      else if c \<in> set ''ABCDEF'' then Some (of_char c - 55)
      else None)"

fun nat_of_hex :: "nat \<Rightarrow> string \<Rightarrow> nat" where
  "nat_of_hex acc [] = acc"
| "nat_of_hex acc (c # cs) = nat_of_hex (16 * acc + (case hex_val c of Some d \<Rightarrow> d | None \<Rightarrow> 0)) cs"

definition read_sign :: "string \<Rightarrow> bool \<times> string" where
  "read_sign s =
     (case s of
        [] \<Rightarrow> (False, [])
      | c # cs \<Rightarrow>
          if c = CHR ''-'' then (True, cs)
          else if c = CHR ''+'' then (False, cs)
          else (False, s))"

definition signed :: "bool \<Rightarrow> rat \<Rightarrow> rat" where
  "signed neg r = (if neg then - r else r)"

definition parseInt_str :: "string \<Rightarrow> json" where
  "parseInt_str s =
     (let (neg, s2) = read_sign (dropWhile is_space s) in
      if take 2 s2 = ''0x'' \<or> take 2 s2 = ''0X'' then
        (let hs = takeWhile (\<lambda>c. hex_val c \<noteq> None) (drop 2 s2) in
         if hs = [] then JNaN else JNum (signed neg (of_nat (nat_of_hex 0 hs))))
      else
        (let ds = takeWhile is_digit s2 in
         if ds = [] then JNaN else JNum (signed neg (of_nat (nat_of_digits 0 ds)))))"

text \<open>
  \<^verbatim>\<open>parseFloat(s)\<close> on a string: skip leading white space, then the longest prefix
  that is a decimal literal (sign, then \<^verbatim>\<open>Infinity\<close> or digits, fraction,
  exponent); no digit gives \<^verbatim>\<open>NaN\<close>.
\<close>

definition read_exponent :: "string \<Rightarrow> int" where
  "read_exponent s =
     (case s of
        [] \<Rightarrow> 0
      | c # cs \<Rightarrow>
          if c = CHR ''e'' \<or> c = CHR ''E'' then
            (let (neg, ds0) = read_sign cs; ds = takeWhile is_digit ds0 in
             if ds = [] then 0
             else if neg then - int (nat_of_digits 0 ds) else int (nat_of_digits 0 ds))
          else 0)"

definition scale10 :: "rat \<Rightarrow> int \<Rightarrow> rat" where
  "scale10 r e = (if 0 \<le> e then r * 10 ^ nat e else r / 10 ^ nat (- e))"

definition parseFloat_str :: "string \<Rightarrow> json" where
  "parseFloat_str s =
     (let (neg, s2) = read_sign (dropWhile is_space s);
          ip = takeWhile is_digit s2;
          r1 = dropWhile is_digit s2;
          (fp, r2) =
            (case r1 of
               [] \<Rightarrow> ([], [])
             | c # cs \<Rightarrow>
                 if c = CHR ''.'' then (takeWhile is_digit cs, dropWhile is_digit cs)
                 else ([], r1))
      in if take 8 s2 = ''Infinity'' then JInf neg
         else if ip = [] \<and> fp = [] then JNaN
         else JNum (signed neg
                (scale10 (of_nat (nat_of_digits 0 (ip @ fp)) / 10 ^ length fp)
                   (read_exponent r2))))"

text \<open>
  On a number the argument is first printed and then parsed.  \<^verbatim>\<open>parseFloat\<close> gets
  the number back.  \<^verbatim>\<open>parseInt\<close> gets the integer part as long as the number prints
  in positional notation (magnitude from \<^verbatim>\<open>1e-6\<close> up to \<^verbatim>\<open>1e21\<close>); outside that
  range the number prints with an exponent, and \<^verbatim>\<open>parseInt\<close> reads only the leading
  digit.  An array prints as its elements joined by commas, so only the first
  element is read; every other value prints as text without a leading digit.
\<close>

definition leading_digit :: "rat \<Rightarrow> nat" where
  "leading_digit r =
     (let (p, q) = quotient_of \<bar>r\<bar>;
          k = length (takeWhile (\<lambda>k. p * 10 ^ k < q) [0 ..< Suc (length (string_of_nat (nat q)))])
      in digit_val (hd (string_of_nat (nat (p * 10 ^ k div q)))))"

definition parseInt_num :: "rat \<Rightarrow> rat" where
  "parseInt_num r =
     (if r = 0 then 0
      else if 1 / 10 ^ 6 \<le> \<bar>r\<bar> \<and> \<bar>r\<bar> < 10 ^ 21 then signed (r < 0) (of_int \<lfloor>\<bar>r\<bar>\<rfloor>)
      else signed (r < 0) (of_nat (leading_digit r)))"

fun parseFloat :: "json \<Rightarrow> json" where
  "parseFloat (JNum r) = JNum r"
| "parseFloat (JInf neg) = JInf neg"
| "parseFloat (JStr s) = parseFloat_str s"
| "parseFloat (JArr (x # xs)) = parseFloat x"
| "parseFloat v = JNaN"

fun parseInt :: "json \<Rightarrow> json" where
  "parseInt (JNum r) = JNum (parseInt_num r)"
| "parseInt (JStr s) = parseInt_str s"
| "parseInt (JArr (x # xs)) = parseInt x"
| "parseInt v = JNaN"


section \<open>The network and the clock\<close>

text \<open>
  Every route talks to the outside through \<^verbatim>\<open>fetch\<close> and reads the time with
  \<^verbatim>\<open>Date.now()\<close>.  The world is the clock (milliseconds since the epoch) and the
  log of what has happened so far: a request sent, a delay slept through
  (\<^verbatim>\<open>await new Promise(resolve => setTimeout(resolve, delay))\<close>), an action called by
  the retry wrapper.  The network is a parameter: it tells, for a request and the
  time it is issued at, how long the answer takes and what it is.
\<close>

datatype body = NoBody | JsonBody json | FormBody "(string \<times> string) list"

record request =
  req_url :: string
  req_method :: string
  req_headers :: "(string \<times> string) list"
  req_body :: body

record http_response =
  resp_status :: nat
  resp_statusText :: string
  resp_text :: string

text \<open>\<^verbatim>\<open>response.ok\<close>\<close>

definition resp_ok :: "http_response \<Rightarrow> bool" where
  "resp_ok r = (200 \<le> resp_status r \<and> resp_status r < 300)"

datatype fetch_outcome = FetchError error | FetchResponse http_response

record reply =
  latency :: nat
  outcome :: fetch_outcome

type_synonym network = "request \<Rightarrow> nat \<Rightarrow> reply"

datatype event = Sent request | Slept nat | Called nat

record world =
  clock :: nat
  events :: "event list"

text \<open>The requests issued so far, in order.\<close>

fun sent :: "event \<Rightarrow> request list" where
  "sent (Sent r) = [r]"
| "sent e = []"

definition requests :: "world \<Rightarrow> request list" where
  "requests w = concat (map sent (events w))"

text \<open>
  \<^verbatim>\<open>await fetch(req)\<close> has two halves: the request goes out when \<^verbatim>\<open>fetch\<close> is
  called, and the caller resumes when the answer has arrived.
\<close>

definition issue :: "request \<Rightarrow> world \<Rightarrow> world" where
  "issue req w = w\<lparr>events := events w @ [Sent req]\<rparr>"

definition sleep :: "nat \<Rightarrow> world \<Rightarrow> world" where
  "sleep ms w = w\<lparr>clock := clock w + ms, events := events w @ [Slept ms]\<rparr>"

definition fetch :: "network \<Rightarrow> request \<Rightarrow> world \<Rightarrow> fetch_outcome \<times> world" where
  "fetch net req w =
     (let r = net req (clock w); w1 = issue req w
      in (outcome r, w1\<lparr>clock := clock w + latency r\<rparr>))"

section \<open>The credential cache (lib/quotemedia-auth)\<close>

text \<open>The four module-level variables.\<close>

record cache =
  cachedSid :: json
  sidExpiration :: "nat option"
  cachedDataToolToken :: json
  tokenExpiration :: "nat option"

definition init_cache :: cache where
  "init_cache =
     \<lparr>cachedSid = JNull, sidExpiration = None,
      cachedDataToolToken = JNull, tokenExpiration = None\<rparr>"

text \<open>
  What a call needs from its surroundings: the three environment variables, the
  network, and \<^verbatim>\<open>JSON.parse\<close> (\<open>None\<close> when it throws).
\<close>

record config =
  env_webmasterId :: "string option"
  env_username :: "string option"
  env_password :: "string option"
  net :: network
  json_parse :: "string \<Rightarrow> json option"

text \<open>\<^verbatim>\<open>process.env.X || d\<close>\<close>

definition env_or :: "string option \<Rightarrow> string \<Rightarrow> string" where
  "env_or v d = (case v of None \<Rightarrow> d | Some s \<Rightarrow> if s = [] then d else s)"

text \<open>\<^verbatim>\<open>expiration && Date.now() < expiration\<close>\<close>

definition live :: "nat option \<Rightarrow> nat \<Rightarrow> bool" where
  "live e now = (case e of None \<Rightarrow> False | Some t \<Rightarrow> t \<noteq> 0 \<and> now < t)"

definition STATIC_TOKEN_HASH :: string where
  "STATIC_TOKEN_HASH = ''32767a4633142b08e3315819e5eeef1af1be83bd7817e59926d246d7ba416430''"

definition auth_request :: "config \<Rightarrow> request" where
  "auth_request cfg =
     \<lparr>req_url = ''https://app.quotemedia.com/auth/p/authenticate/v0/'',
      req_method = ''POST'',
      req_headers =
        [(''Content-Type'', ''application/json''),
         (''Accept'', ''application/json''),
         (''User-Agent'', ''Mozilla/5.0 (Windows NT 10.0; Win64; x64) AppleWebKit/537.36 (KHTML, like Gecko) Chrome/124.0.0.0 Safari/537.36'')],
      req_body = JsonBody (JObj
        [(''wmId'', parseInt (JStr (env_or (env_webmasterId cfg) ''101020''))),
         (''username'', JStr (env_or (env_username cfg) [])),
         (''password'', JStr (env_or (env_password cfg) []))])\<rparr>"

text \<open>
  \<^verbatim>\<open>getQuoteMediaSid\<close> runs up to its \<^verbatim>\<open>await fetch\<close> without interruption: it
  either finishes there (cache hit, or missing credentials), or has issued the
  authentication request and is suspended.
\<close>

datatype suspended = Finished "error + json" | Awaiting request

definition getQuoteMediaSid_start :: "config \<Rightarrow> cache \<Rightarrow> nat \<Rightarrow> suspended" where
  "getQuoteMediaSid_start cfg c now =
     (if truthy (cachedSid c) \<and> live (sidExpiration c) now then Finished (Inr (cachedSid c))
      else if env_or (env_username cfg) [] = [] \<or> env_or (env_password cfg) [] = [] then
        Finished (Inl (Error ''QuoteMedia credentials not found in environment variables''))
      else Awaiting (auth_request cfg))"

text \<open>The rest of the function, run when the answer has arrived, at time \<open>now\<close>.\<close>

definition getQuoteMediaSid_resume ::
    "config \<Rightarrow> fetch_outcome \<Rightarrow> cache \<Rightarrow> nat \<Rightarrow> (error + json) \<times> cache" where
  "getQuoteMediaSid_resume cfg out c now =
     (case out of
        FetchError e \<Rightarrow> (Inl e, c)
      | FetchResponse r \<Rightarrow>
          if \<not> resp_ok r then
            (Inl (Error (''Authentication failed: '' @ string_of_nat (resp_status r) @ '' ''
                          @ resp_statusText r)), c)
          else
            (case json_parse cfg (resp_text r) of
               None \<Rightarrow> (Inl (SyntaxError ''Unexpected token''), c)
             | Some data \<Rightarrow>
                 (case getprop data ''sid'' of
                    Inl e \<Rightarrow> (Inl e, c)
                  | Inr sessionId \<Rightarrow>
                      if \<not> truthy sessionId then
                        (Inl (Error ''No session ID found in authentication response''), c)
                      else
                        (Inr sessionId,
                         c\<lparr>cachedSid := sessionId,
                           sidExpiration := Some (now + 60 * 60 * 1000)\<rparr>))))"

definition getQuoteMediaSid ::
    "config \<Rightarrow> cache \<times> world \<Rightarrow> (error + json) \<times> cache \<times> world" where
  "getQuoteMediaSid cfg s =
     (case s of (c, w) \<Rightarrow>
        (case getQuoteMediaSid_start cfg c (clock w) of
           Finished r \<Rightarrow> (r, c, w)
         | Awaiting req \<Rightarrow>
             (let (out, w1) = fetch (net cfg) req w;
                  (r, c1) = getQuoteMediaSid_resume cfg out c (clock w1)
              in (r, c1, w1))))"

definition clearCachedSid :: "cache \<Rightarrow> cache" where
  "clearCachedSid c = c\<lparr>cachedSid := JNull, sidExpiration := None\<rparr>"

definition clearCachedToken :: "cache \<Rightarrow> cache" where
  "clearCachedToken c = c\<lparr>cachedDataToolToken := JNull, tokenExpiration := None\<rparr>"

definition token_request :: "config \<Rightarrow> json \<Rightarrow> request" where
  "token_request cfg sid =
     \<lparr>req_url = ''https://app.quotemedia.com/auth/g/authenticate/dataTool/v0/''
                 @ env_or (env_webmasterId cfg) ''101020'' @ ''/'' @ STATIC_TOKEN_HASH,
      req_method = ''POST'',
      req_headers =
        [(''datatool-token'', ''null''),
         (''origin'', ''https://qrm.quotemedia.com''),
         (''referer'', ''https://qrm.quotemedia.com/''),
         (''user-agent'', ''Mozilla/5.0 (X11; Linux x86_64) AppleWebKit/537.36''),
         (''accept'', ''*/*''),
         (''content-type'', ''application/json'')],
      req_body = JsonBody (JObj [(''sid'', sid)])\<rparr>"

definition generateDataToolToken ::
    "config \<Rightarrow> cache \<times> world \<Rightarrow> (error + json) \<times> cache \<times> world" where
  "generateDataToolToken cfg s =
     (case s of (c, w) \<Rightarrow>
        if truthy (cachedDataToolToken c) \<and> live (tokenExpiration c) (clock w) then
          (Inr (cachedDataToolToken c), c, w)
        else
          (case getQuoteMediaSid cfg (c, w) of
             (Inl e, c1, w1) \<Rightarrow> (Inl e, c1, w1)
           | (Inr sid, c1, w1) \<Rightarrow>
               (let (out, w2) = fetch (net cfg) (token_request cfg sid) w1 in
                case out of
                  FetchError e \<Rightarrow> (Inl e, c1, w2)
                | FetchResponse r \<Rightarrow>
                    if \<not> resp_ok r then
                      (Inl (Error (''Token generation failed: '' @ string_of_nat (resp_status r)
                                    @ '' '' @ resp_statusText r)), c1, w2)
                    else
                      (case json_parse cfg (resp_text r) of
                         None \<Rightarrow> (Inl (SyntaxError ''Unexpected token''), c1, w2)
                       | Some data \<Rightarrow>
                           (case getprop data ''token'' of
                              Inl e \<Rightarrow> (Inl e, c1, w2)
                            | Inr token \<Rightarrow>
                                if \<not> truthy token then
                                  (Inl (Error ''No token found in response''), c1, w2)
                                else
                                  (Inr token,
                                   c1\<lparr>cachedDataToolToken := token,
                                      tokenExpiration := Some (clock w2 + 30 * 60 * 1000)\<rparr>,
                                   w2))))))"

text \<open>
  The states the module can be in: it starts with an empty cache, and from then on
  only the four exported functions touch the variables, while time passes.
\<close>

inductive reachable :: "config \<Rightarrow> cache \<times> world \<Rightarrow> bool" for cfg :: config where
  r_init: "reachable cfg (init_cache, w)"
| r_sid: "reachable cfg s \<Longrightarrow> reachable cfg (snd (getQuoteMediaSid cfg s))"
| r_token: "reachable cfg s \<Longrightarrow> reachable cfg (snd (generateDataToolToken cfg s))"
| r_clearSid: "reachable cfg (c, w) \<Longrightarrow> reachable cfg (clearCachedSid c, w)"
| r_clearToken: "reachable cfg (c, w) \<Longrightarrow> reachable cfg (clearCachedToken c, w)"
| r_tick: "reachable cfg (c, w) \<Longrightarrow> reachable cfg (c, w\<lparr>clock := clock w + d\<rparr>)"

text \<open>
  Two calls made without waiting for the first one (as \<^verbatim>\<open>Promise.all\<close> of two calls
  does): the first runs to its \<^verbatim>\<open>await\<close>, then the second runs to its
  \<^verbatim>\<open>await\<close>, then each resumes when its own answer arrives.  Requests that are
  issued are logged; the answers of both are taken from the network at the time of
  the call.
\<close>

definition start_call :: "config \<Rightarrow> cache \<times> world \<Rightarrow> suspended \<times> world" where
  "start_call cfg s =
     (case s of (c, w) \<Rightarrow>
        (case getQuoteMediaSid_start cfg c (clock w) of
           Finished r \<Rightarrow> (Finished r, w)
         | Awaiting req \<Rightarrow> (Awaiting req, issue req w)))"

definition resume_call ::
    "config \<Rightarrow> nat \<Rightarrow> suspended \<Rightarrow> cache \<times> world \<Rightarrow> (error + json) \<times> cache \<times> world" where
  "resume_call cfg t0 p s =
     (case s of (c, w) \<Rightarrow>
        (case p of
           Finished r \<Rightarrow> (r, c, w)
         | Awaiting req \<Rightarrow>
             (let rp = net cfg req t0;
                  w1 = w\<lparr>clock := max (clock w) (t0 + latency rp)\<rparr>;
                  (r, c1) = getQuoteMediaSid_resume cfg (outcome rp) c (clock w1)
              in (r, c1, w1))))"

definition two_concurrent_gets ::
    "config \<Rightarrow> cache \<times> world \<Rightarrow> (error + json) \<times> (error + json) \<times> cache \<times> world" where
  "two_concurrent_gets cfg s =
     (case s of (c, w) \<Rightarrow>
        (let t0 = clock w;
             (pa, wa) = start_call cfg (c, w);
             (pb, wb) = start_call cfg (c, wa);
             (ra, c1, w1) = resume_call cfg t0 pa (c, wb);
             (rb, c2, w2) = resume_call cfg t0 pb (c1, w1)
         in (ra, rb, c2, w2)))"

text \<open>
  A cached value exists and the current time is strictly before its stored
  expiration.
\<close>

definition sid_hit :: "cache \<Rightarrow> nat \<Rightarrow> bool" where
  "sid_hit c now = (cachedSid c \<noteq> JNull \<and> (\<exists>e. sidExpiration c = Some e \<and> now < e))"

definition token_hit :: "cache \<Rightarrow> nat \<Rightarrow> bool" where
  "token_hit c now =
     (cachedDataToolToken c \<noteq> JNull \<and> (\<exists>e. tokenExpiration c = Some e \<and> now < e))"

text \<open>Only values that passed the \<^verbatim>\<open>if (!value) throw\<close> guard are ever cached.\<close>

definition cache_inv :: "cache \<Rightarrow> bool" where
  "cache_inv c =
     ((cachedSid c = JNull \<or> truthy (cachedSid c)) \<and>
      (cachedDataToolToken c = JNull \<or> truthy (cachedDataToolToken c)))"

text \<open>Both credentials are set in the environment.\<close>

definition credentials_set :: "config \<Rightarrow> bool" where
  "credentials_set cfg = (env_or (env_username cfg) [] \<noteq> [] \<and> env_or (env_password cfg) [] \<noteq> [])"

text \<open>
  A concrete surrounding for examples: both credentials set, a network that answers
  every request after 5 ms with a body holding a session id and a token, and a
  \<^verbatim>\<open>JSON.parse\<close> that knows this body.
\<close>

definition demo_body :: string where
  \<open>demo_body = ''{"sid":"S1","token":"T1"}''\<close>

definition demo_config :: config where
  "demo_config =
     \<lparr>env_webmasterId = None, env_username = Some ''user'', env_password = Some ''secret'',
      net = (\<lambda>req t. \<lparr>latency = 5, outcome = FetchResponse
               \<lparr>resp_status = 200, resp_statusText = ''OK'', resp_text = demo_body\<rparr>\<rparr>),
      json_parse = (\<lambda>s. if s = demo_body
                          then Some (JObj [(''sid'', JStr ''S1''), (''token'', JStr ''T1'')])
                          else None)\<rparr>"

definition demo_world :: world where
  "demo_world = \<lparr>clock = 1000, events = []\<rparr>"

text \<open>The state after one \<^verbatim>\<open>getQuoteMediaSid\<close> from the empty cache.\<close>

definition demo_cache_sid :: cache where
  "demo_cache_sid =
     \<lparr>cachedSid = JStr ''S1'', sidExpiration = Some 3601005,
      cachedDataToolToken = JNull, tokenExpiration = None\<rparr>"

definition demo_world_sid :: world where
  "demo_world_sid = \<lparr>clock = 1005, events = [Sent (auth_request demo_config)]\<rparr>"

text \<open>The state after one \<^verbatim>\<open>generateDataToolToken\<close> from the empty cache.\<close>

definition demo_cache_token :: cache where
  "demo_cache_token =
     \<lparr>cachedSid = JStr ''S1'', sidExpiration = Some 3601005,
      cachedDataToolToken = JStr ''T1'', tokenExpiration = Some 1801010\<rparr>"

definition demo_world_token :: world where
  "demo_world_token =
     \<lparr>clock = 1010,
      events = [Sent (auth_request demo_config), Sent (token_request demo_config (JStr ''S1''))]\<rparr>"

section \<open>The trading-halt feed (api/halts)\<close>

subsection \<open>The parsed document\<close>

text \<open>
  \<^verbatim>\<open>cheerio.load\<close> turns the HTML text into a tree; the parser itself is a library
  and a parameter of the model.  A node is a piece of text or an element with a
  (lower-case) tag name and children.
\<close>

datatype node = Text string | Element string "node list"

text \<open>\<^verbatim>\<open>$(n).text()\<close>: the text of all descendants, in document order.\<close>

fun text_of :: "node \<Rightarrow> string" where
  "text_of (Text s) = s"
| "text_of (Element t cs) = concat (map text_of cs)"

text \<open>All descendants of a node, in document order.\<close>

fun descendants :: "node \<Rightarrow> node list" where
  "descendants (Text s) = []"
| "descendants (Element t cs) = concat (map (\<lambda>c. c # descendants c) cs)"

fun is_tag :: "string \<Rightarrow> node \<Rightarrow> bool" where
  "is_tag t (Text s) = False"
| "is_tag t (Element t' cs) = (t' = t)"

text \<open>\<^verbatim>\<open>$(n).find(tag)\<close>\<close>

definition find_tag :: "string \<Rightarrow> node \<Rightarrow> node list" where
  "find_tag t n = filter (is_tag t) (descendants n)"

text \<open>\<^verbatim>\<open>$(tag)\<close> on the whole document, given by its top-level nodes.\<close>

definition select_tag :: "string \<Rightarrow> node list \<Rightarrow> node list" where
  "select_tag t doc = filter (is_tag t) (concat (map (\<lambda>n. n # descendants n) doc))"

text \<open>\<^verbatim>\<open>$(ns).text()\<close> on a set of nodes: the texts of all of them, concatenated.\<close>

definition text_of_all :: "node list \<Rightarrow> string" where
  "text_of_all ns = concat (map text_of ns)"

text \<open>\<^verbatim>\<open>xs.join(sep)\<close>\<close>

fun join :: "string \<Rightarrow> string list \<Rightarrow> string" where
  "join sep [] = []"
| "join sep [x] = x"
| "join sep (x # y # ys) = x @ sep @ join sep (y # ys)"

subsection \<open>\<^verbatim>\<open>findTableElement\<close>\<close>

fun searchTable :: "node \<Rightarrow> node option"
  and searchChildren :: "node list \<Rightarrow> node option" where
  "searchTable (Text s) = None"
| "searchTable (Element t cs) =
     (if t = ''table'' then Some (Element t cs) else searchChildren cs)"
| "searchChildren [] = None"
| "searchChildren (c # cs) =
     (case searchTable c of Some r \<Rightarrow> Some r | None \<Rightarrow> searchChildren cs)"

definition findTableElement :: "node list \<Rightarrow> node option" where
  "findTableElement doc =
     (case select_tag ''table'' doc of
        t # ts \<Rightarrow> Some t
      | [] \<Rightarrow> searchChildren (select_tag ''root'' doc))"

subsection \<open>\<^verbatim>\<open>parseNasdaqTable\<close>\<close>

record HaltData =
  symbol :: string
  haltDate :: string
  haltTime :: string
  issueName :: string
  market :: string
  reasonCodes :: string
  pauseThresholdPrice :: string
  resumptionDate :: string
  resumptionQuoteTime :: string

text \<open>What \<^verbatim>\<open>new Date()\<close> is read for: the local month (from 0), day and year.\<close>

record date =
  getMonth :: nat
  getDate :: nat
  getFullYear :: nat

definition todayFormatted :: "date \<Rightarrow> string" where
  "todayFormatted today =
     padStart2 (string_of_nat (getMonth today + 1)) @ ''/''
     @ padStart2 (string_of_nat (getDate today)) @ ''/''
     @ string_of_nat (getFullYear today)"

text \<open>
  The special handling of the cell at index 5: for every \<^verbatim>\<open>div\<close> below the cell that
  has an \<^verbatim>\<open>a\<close> below it, the text of all those \<^verbatim>\<open>a\<close> elements together, trimmed,
  is kept when it is not empty.
\<close>

definition reasons_of :: "node \<Rightarrow> string list" where
  "reasons_of cell =
     concat (map (\<lambda>d. let a = find_tag ''a'' d in
                        if a \<noteq> [] \<and> trim (text_of_all a) \<noteq> [] then [trim (text_of_all a)]
                        else [])
       (find_tag ''div'' cell))"

text \<open>The value stored in \<^verbatim>\<open>rowData\<close> for the cell at index \<open>j\<close>.\<close>

definition stored_value :: "nat \<Rightarrow> node \<Rightarrow> string" where
  "stored_value j cell =
     (let cellValue = trim (text_of cell) in
      if j = 5 then
        (let reasons = reasons_of cell in
         if reasons \<noteq> [] then join '', '' reasons else cellValue)
      else cellValue)"

text \<open>
  The \<^verbatim>\<open>cells.each\<close> loop over the cells of one row, from index \<open>j\<close> on, threading
  \<^verbatim>\<open>rowData\<close> and \<^verbatim>\<open>isToday\<close>.  A cell without a header name is skipped.
\<close>

fun process_cells ::
    "string list \<Rightarrow> string \<Rightarrow> nat \<Rightarrow> node list \<Rightarrow> (string \<rightharpoonup> string) \<times> bool
      \<Rightarrow> (string \<rightharpoonup> string) \<times> bool" where
  "process_cells headers today j [] acc = acc"
| "process_cells headers today j (cell # cells) (rowData, isToday) =
     (if length headers \<le> j \<or> headers ! j = [] then
        process_cells headers today (j + 1) cells (rowData, isToday)
      else
        (let headerName = headers ! j;
             cellValue = trim (text_of cell);
             isToday1 = (if headerName = ''Halt Date'' \<and> cellValue = today then True else isToday)
         in process_cells headers today (j + 1) cells
              (rowData(headerName \<mapsto> stored_value j cell), isToday1)))"

text \<open>\<^verbatim>\<open>rowData[k] || "N/A"\<close>\<close>

definition or_na :: "string option \<Rightarrow> string" where
  "or_na v = (case v of None \<Rightarrow> ''N/A'' | Some s \<Rightarrow> if s = [] then ''N/A'' else s)"

definition halt_of_row :: "(string \<rightharpoonup> string) \<Rightarrow> HaltData" where
  "halt_of_row rowData =
     \<lparr>symbol = or_na (rowData ''Issue Symbol''),
      haltDate = or_na (rowData ''Halt Date''),
      haltTime = or_na (rowData ''Halt Time''),
      issueName = or_na (rowData ''Issue Name''),
      market = or_na (rowData ''Market''),
      reasonCodes = or_na (rowData ''Reason Codes''),
      pauseThresholdPrice = or_na (rowData ''Pause Threshold Price''),
      resumptionDate = or_na (rowData ''Resumption Date''),
      resumptionQuoteTime = or_na (rowData ''Resumption Quote Time'')\<rparr>"

text \<open>The loop over the data rows, pushing onto \<^verbatim>\<open>data\<close>.\<close>

fun process_rows :: "string list \<Rightarrow> string \<Rightarrow> node list \<Rightarrow> HaltData list \<Rightarrow> HaltData list" where
  "process_rows headers today [] data = data"
| "process_rows headers today (row # rows) data =
     (let cells = find_tag ''td'' row in
      if cells = [] then process_rows headers today rows data
      else
        (let (rowData, isToday) = process_cells headers today 0 cells (Map.empty, False) in
         if isToday \<and> rowData ''Issue Symbol'' \<noteq> None \<and> rowData ''Issue Symbol'' \<noteq> Some []
         then process_rows headers today rows (data @ [halt_of_row rowData])
         else process_rows headers today rows data))"

text \<open>The function on the loaded document.\<close>

definition parseNasdaqDocument :: "date \<Rightarrow> node list \<Rightarrow> HaltData list" where
  "parseNasdaqDocument today doc =
     (case findTableElement doc of
        None \<Rightarrow> []
      | Some table \<Rightarrow>
          (case find_tag ''tr'' table of
             [] \<Rightarrow> []
           | first # rest \<Rightarrow>
               (let headers = map (\<lambda>th. trim (text_of th)) (find_tag ''th'' first)
                in process_rows headers (todayFormatted today) rest [])))"

text \<open>
  \<^verbatim>\<open>parseNasdaqTable(html)\<close>: \<open>load\<close> is \<^verbatim>\<open>cheerio.load\<close>, giving the top-level nodes
  of the document.  The \<^verbatim>\<open>try\<close> around the body turns any exception into the empty
  list; no step of the body on a loaded document throws.
\<close>

definition parseNasdaqTable :: "(string \<Rightarrow> node list) \<Rightarrow> date \<Rightarrow> string \<Rightarrow> HaltData list" where
  "parseNasdaqTable load today html = parseNasdaqDocument today (load (''<root>'' @ html @ ''</root>''))"

text \<open>
  The retention rule in words: some cell of the row under a header named
  \<^verbatim>\<open>Halt Date\<close> has today's string as its trimmed text, and the row's
  \<^verbatim>\<open>Issue Symbol\<close> (the last cell under a header of that name) is not empty.
\<close>

definition halt_date_is :: "string list \<Rightarrow> string \<Rightarrow> node list \<Rightarrow> bool" where
  "halt_date_is headers today cells =
     (\<exists>i < length cells. i < length headers \<and> headers ! i = ''Halt Date''
        \<and> trim (text_of (cells ! i)) = today)"

definition last_under :: "string list \<Rightarrow> string \<Rightarrow> node list \<Rightarrow> nat \<Rightarrow> bool" where
  "last_under headers name cells i =
     (i < length cells \<and> i < length headers \<and> headers ! i = name \<and>
      (\<forall>k < length cells. i < k \<longrightarrow> \<not> (k < length headers \<and> headers ! k = name)))"

definition has_issue_symbol :: "string list \<Rightarrow> node list \<Rightarrow> bool" where
  "has_issue_symbol headers cells =
     (\<exists>i < length cells. last_under headers ''Issue Symbol'' cells i \<and> stored_value i (cells ! i) \<noteq> [])"

definition retained :: "string list \<Rightarrow> string \<Rightarrow> node \<Rightarrow> bool" where
  "retained headers today row =
     (halt_date_is headers today (find_tag ''td'' row) \<and>
      has_issue_symbol headers (find_tag ''td'' row))"

text \<open>The record made from a row.\<close>

definition record_of_row :: "string list \<Rightarrow> string \<Rightarrow> node \<Rightarrow> HaltData" where
  "record_of_row headers today row =
     halt_of_row (fst (process_cells headers today 0 (find_tag ''td'' row) (Map.empty, False)))"

definition header_names :: "node \<Rightarrow> string list" where
  "header_names first = map (\<lambda>th. trim (text_of th)) (find_tag ''th'' first)"

text \<open>
  The value of a cell at index 5 in words: every \<^verbatim>\<open>div\<close> below the cell, in
  document order (a \<^verbatim>\<open>div\<close> inside a \<^verbatim>\<open>div\<close> counts for itself as well), gives
  the texts of all \<^verbatim>\<open>a\<close> elements below it, put together and then trimmed; the
  results that are not empty are the reasons.
\<close>

definition anchor_text :: "node \<Rightarrow> string" where
  "anchor_text d = trim (concat (map text_of (filter (is_tag ''a'') (descendants d))))"

definition div_reasons :: "node \<Rightarrow> string list" where
  "div_reasons cell =
     filter (\<lambda>reason. reason \<noteq> []) (map anchor_text (filter (is_tag ''div'') (descendants cell)))"

text \<open>An example feed: 3 November 2026, one halt dated today and one dated the day before.\<close>

definition demo_today :: date where
  "demo_today = \<lparr>getMonth = 10, getDate = 3, getFullYear = 2026\<rparr>"

definition demo_header_row :: node where
  "demo_header_row =
     Element ''tr'' (map (\<lambda>s. Element ''th'' [Text s])
       [''Halt Date'', ''Halt Time'', ''Issue Symbol'', ''Issue Name'', ''Market'',
        ''Reason Codes'', ''Pause Threshold Price'', ''Resumption Date'',
        ''Resumption Quote Time'', ''Resumption Trade Time''])"

definition demo_reason_cell :: node where
  "demo_reason_cell =
     Element ''td''
       [Element ''div'' [Element ''a'' [Text ''Regulatory Concern'']],
        Element ''div'' [Element ''a'' [Text ''Other'']]]"

definition demo_row_today :: node where
  "demo_row_today =
     Element ''tr''
       [Element ''td'' [Text ''11/03/2026''], Element ''td'' [Text ''09:41:05''],
        Element ''td'' [Text '' XYZ ''], Element ''td'' [Text ''XYZ Corp''],
        Element ''td'' [Text ''NASDAQ''], demo_reason_cell,
        Element ''td'' [], Element ''td'' [], Element ''td'' [], Element ''td'' []]"

definition demo_row_yesterday :: node where
  "demo_row_yesterday =
     Element ''tr''
       [Element ''td'' [Text ''11/02/2026''], Element ''td'' [Text ''15:20:00''],
        Element ''td'' [Text ''ABC''], Element ''td'' [Text ''ABC Inc''],
        Element ''td'' [Text ''NYSE''], Element ''td'' [Text ''T1''],
        Element ''td'' [], Element ''td'' [], Element ''td'' [], Element ''td'' []]"

definition demo_table :: node where
  "demo_table = Element ''table'' [Element ''tbody'' [demo_header_row, demo_row_today, demo_row_yesterday]]"

definition demo_doc :: "node list" where
  "demo_doc =
     [Element ''html''
        [Element ''head'' [],
         Element ''body'' [Element ''root'' [Element ''div'' [demo_table]]]]]"

definition demo_halt :: HaltData where
  "demo_halt =
     \<lparr>symbol = ''XYZ'', haltDate = ''11/03/2026'', haltTime = ''09:41:05'',
      issueName = ''XYZ Corp'', market = ''NASDAQ'',
      reasonCodes = ''Regulatory Concern, Other'', pauseThresholdPrice = ''N/A'',
      resumptionDate = ''N/A'', resumptionQuoteTime = ''N/A''\<rparr>"

text \<open>
  Three more cells: two anchors in one \<^verbatim>\<open>div\<close>, an anchor with blank text next to
  plain text, and an anchor inside two nested \<^verbatim>\<open>div\<close> elements.
\<close>

definition two_anchor_cell :: node where
  "two_anchor_cell =
     Element ''td''
       [Element ''div'' [Element ''a'' [Text ''Regulatory Concern''], Element ''a'' [Text ''Other'']]]"

definition blank_anchor_cell :: node where
  "blank_anchor_cell = Element ''td'' [Text ''raw'', Element ''div'' [Element ''a'' [Text '' '']]]"

definition nested_div_cell :: node where
  "nested_div_cell = Element ''td'' [Element ''div'' [Element ''div'' [Element ''a'' [Text ''X'']]]]"

text \<open>
  Two more tables.  In the first the \<^verbatim>\<open>Reason Codes\<close> column is the third one; in
  the second it is the sixth, and one \<^verbatim>\<open>div\<close> of the cell holds two anchors.
\<close>

definition short_doc :: "node list" where
  "short_doc =
     [Element ''root''
        [Element ''table''
           [Element ''tr'' (map (\<lambda>s. Element ''th'' [Text s])
              [''Halt Date'', ''Issue Symbol'', ''Reason Codes'']),
            Element ''tr''
              [Element ''td'' [Text ''11/03/2026''], Element ''td'' [Text ''XYZ''],
               demo_reason_cell]]]]"

definition two_anchor_doc :: "node list" where
  "two_anchor_doc =
     [Element ''root''
        [Element ''table''
           [demo_header_row,
            Element ''tr''
              [Element ''td'' [Text ''11/03/2026''], Element ''td'' [Text ''09:41:05''],
               Element ''td'' [Text ''XYZ''], Element ''td'' [Text ''XYZ Corp''],
               Element ''td'' [Text ''NASDAQ''],
               Element ''td''
                 [Element ''div''
                    [Element ''a'' [Text ''Regulatory Concern''], Element ''a'' [Text ''Other'']]]]]]]"

subsection \<open>\<^verbatim>\<open>fetchNasdaqHalts\<close>\<close>

text \<open>
  \<^verbatim>\<open>html.replace(/&(?![a-zA-Z0-9#]+;)/g, '&amp;')\<close>: an ampersand is left alone
  when a non-empty run of letters, digits and \<^verbatim>\<open>#\<close> followed by a semicolon comes
  right after it, and is replaced by \<^verbatim>\<open>&amp;\<close> otherwise.
\<close>

definition is_entity_char :: "char \<Rightarrow> bool" where
  "is_entity_char c =
     (c \<in> set ''abcdefghijklmnopqrstuvwxyzABCDEFGHIJKLMNOPQRSTUVWXYZ0123456789#'')"

definition entity_follows :: "string \<Rightarrow> bool" where
  "entity_follows s =
     (takeWhile is_entity_char s \<noteq> [] \<and>
      (case dropWhile is_entity_char s of [] \<Rightarrow> False | c # cs \<Rightarrow> c = CHR '';''))"

fun escape_amp :: "string \<Rightarrow> string" where
  "escape_amp [] = []"
| "escape_amp (c # cs) =
     (if c = CHR ''&'' \<and> \<not> entity_follows cs then ''&amp;'' @ escape_amp cs
      else c # escape_amp cs)"

text \<open>\<^verbatim>\<open>s.indexOf(c)\<close>, \<^verbatim>\<open>s.lastIndexOf(c)\<close> (\<open>None\<close> for \<^verbatim>\<open>-1\<close>) and \<^verbatim>\<open>s.substring(a, b)\<close>.\<close>

fun indexOf :: "char \<Rightarrow> string \<Rightarrow> nat option" where
  "indexOf c [] = None"
| "indexOf c (x # xs) = (if x = c then Some 0 else map_option Suc (indexOf c xs))"

definition lastIndexOf :: "char \<Rightarrow> string \<Rightarrow> nat option" where
  "lastIndexOf c s = map_option (\<lambda>i. length s - 1 - i) (indexOf c (rev s))"

definition substring :: "string \<Rightarrow> nat \<Rightarrow> nat \<Rightarrow> string" where
  "substring s a b = take (b - a) (drop a s)"

text \<open>
  The two-step \<^verbatim>\<open>JSON.parse\<close> of the response text: as it is, and, when that throws,
  cut down to the part from the first \<^verbatim>\<open>{\<close> to the last \<^verbatim>\<open>}\<close>.
\<close>

definition parse_response :: "(string \<Rightarrow> json option) \<Rightarrow> string \<Rightarrow> error + json" where
  "parse_response parse responseText =
     (case parse responseText of
        Some json \<Rightarrow> Inr json
      | None \<Rightarrow>
          (let cleanedText = trim responseText in
           case (indexOf CHR ''{'' cleanedText, lastIndexOf CHR ''}'' cleanedText) of
             (Some firstBrace, Some lastBrace) \<Rightarrow>
               if firstBrace < lastBrace then
                 (case parse (substring cleanedText firstBrace (lastBrace + 1)) of
                    Some json \<Rightarrow> Inr json
                  | None \<Rightarrow> Inl (SyntaxError ''Unexpected token''))
               else Inl (Error ''Invalid JSON response: Unexpected token'')
           | _ \<Rightarrow> Inl (Error ''Invalid JSON response: Unexpected token'')))"

record halts_config =
  h_net :: network
  h_json_parse :: "string \<Rightarrow> json option"
  h_load :: "string \<Rightarrow> node list"
  h_today :: "nat \<Rightarrow> date"

definition halts_request :: request where
  "halts_request =
     \<lparr>req_url = ''https://www.nasdaqtrader.com/RPCHandler.axd'',
      req_method = ''POST'',
      req_headers =
        [(''accept'', ''*/*''),
         (''accept-language'', ''en-US,en;q=0.9''),
         (''content-type'', ''application/json''),
         (''origin'', ''https://www.nasdaqtrader.com''),
         (''referer'', ''https://www.nasdaqtrader.com/trader.aspx?id=tradehalts''),
         (''user-agent'', ''Mozilla/5.0 (Windows NT 10.0; Win64; x64) AppleWebKit/537.36 (KHTML, like Gecko) Chrome/121.0.0.0 Safari/537.36''),
         (''sec-fetch-dest'', ''empty''),
         (''sec-fetch-mode'', ''cors''),
         (''sec-fetch-site'', ''same-origin'')],
      req_body = JsonBody (JObj
        [(''id'', JNum 2), (''method'', JStr ''BL_TradeHalt.GetTradeHalts''),
         (''params'', JStr ''[]''), (''version'', JStr ''1.1'')])\<rparr>"

text \<open>
  \<^verbatim>\<open>fetch\<close> with an \<^verbatim>\<open>AbortController\<close> that fires after \<open>timeoutMs\<close>: an answer
  that would take that long or longer is cut off with an \<^verbatim>\<open>AbortError\<close>.
\<close>

definition fetch_with_timeout ::
    "network \<Rightarrow> nat \<Rightarrow> request \<Rightarrow> world \<Rightarrow> fetch_outcome \<times> world" where
  "fetch_with_timeout nw timeoutMs req w =
     (let r = nw req (clock w); w1 = issue req w in
      if latency r < timeoutMs then (outcome r, w1\<lparr>clock := clock w + latency r\<rparr>)
      else (FetchError (AbortError ''This operation was aborted''),
            w1\<lparr>clock := clock w + timeoutMs\<rparr>))"

text \<open>The body of the \<^verbatim>\<open>try\<close> after the \<^verbatim>\<open>fetch\<close>, at time \<open>now\<close>.\<close>

definition halts_of_outcome :: "halts_config \<Rightarrow> nat \<Rightarrow> fetch_outcome \<Rightarrow> error + HaltData list" where
  "halts_of_outcome cfg now out =
     (case out of
        FetchError e \<Rightarrow> Inl e
      | FetchResponse r \<Rightarrow>
          if \<not> resp_ok r then
            Inl (Error (''HTTP '' @ string_of_nat (resp_status r) @ '': '' @ resp_statusText r))
          else
            (case parse_response (h_json_parse cfg) (resp_text r) of
               Inl e \<Rightarrow> Inl e
             | Inr json \<Rightarrow>
                 (case getprop json ''result'' of
                    Inl e \<Rightarrow> Inl e
                  | Inr (JStr html) \<Rightarrow>
                      Inr (parseNasdaqTable (h_load cfg) (h_today cfg now) (escape_amp html))
                  | Inr other \<Rightarrow> Inl (TypeError ''html.replace is not a function''))))"

definition maxRetries_halts :: nat where
  "maxRetries_halts = 3"

function fetchNasdaqHalts_loop ::
    "halts_config \<Rightarrow> nat \<Rightarrow> error option \<Rightarrow> world \<Rightarrow> HaltData list \<times> world" where
  "fetchNasdaqHalts_loop cfg attempt lastError w =
     (if attempt \<le> maxRetries_halts then
        (let (out, w1) = fetch_with_timeout (h_net cfg) 8000 halts_request w in
         case halts_of_outcome cfg (clock w1) out of
           Inr halts \<Rightarrow> (halts, w1)
         | Inl e \<Rightarrow>
             fetchNasdaqHalts_loop cfg (attempt + 1) (Some e)
               (if attempt < maxRetries_halts then sleep (attempt * 1000) w1 else w1))
      else ([], w))"
  by pat_completeness auto
termination
  by (relation "measure (\<lambda>(cfg, attempt, lastError, w). Suc maxRetries_halts - attempt)") auto

declare fetchNasdaqHalts_loop.simps [simp del]

definition fetchNasdaqHalts :: "halts_config \<Rightarrow> world \<Rightarrow> HaltData list \<times> world" where
  "fetchNasdaqHalts cfg w = fetchNasdaqHalts_loop cfg 1 None w"

subsection \<open>\<^verbatim>\<open>withRetry\<close>\<close>

text \<open>
  The action handed to \<^verbatim>\<open>withRetry\<close>, called at a given time, settles after some
  time with a value or an error.  \<^verbatim>\<open>Promise.race\<close> against the abort timer lets the
  action win when it settles before \<open>timeoutMs\<close> have passed.
\<close>

record 'a settled =
  duration :: nat
  result :: "error + 'a"

definition race_timeout :: "'a settled \<Rightarrow> nat \<Rightarrow> nat \<times> (error + 'a)" where
  "race_timeout s timeoutMs =
     (if duration s < timeoutMs then (duration s, result s)
      else (timeoutMs, Inl (Error ''Request timeout'')))"

function withRetry_loop ::
    "(nat \<Rightarrow> 'a settled) \<Rightarrow> string \<Rightarrow> nat \<Rightarrow> nat \<Rightarrow> nat \<Rightarrow> error option \<Rightarrow> world
      \<Rightarrow> (error + 'a) \<times> world" where
  "withRetry_loop fn functionName maxRetries timeoutMs attempt lastError w =
     (if attempt \<le> maxRetries then
        (let (elapsed, r) = race_timeout (fn (clock w)) timeoutMs;
             w1 = w\<lparr>clock := clock w + elapsed, events := events w @ [Called attempt]\<rparr>
         in case r of
              Inr v \<Rightarrow> (Inr v, w1)
            | Inl e \<Rightarrow>
                withRetry_loop fn functionName maxRetries timeoutMs (attempt + 1) (Some e)
                  (if attempt < maxRetries then sleep (attempt * 1000) w1 else w1))
      else
        (Inl (case lastError of
                Some e \<Rightarrow> e
              | None \<Rightarrow> Error (functionName @ '' failed after '' @ string_of_nat maxRetries
                                @ '' attempts'')), w))"
  by pat_completeness auto
termination
  by (relation "measure (\<lambda>(fn, functionName, maxRetries, timeoutMs, attempt, lastError, w).
        Suc maxRetries - attempt)") auto

declare withRetry_loop.simps [simp del]

definition withRetry ::
    "(nat \<Rightarrow> 'a settled) \<Rightarrow> string \<Rightarrow> string \<Rightarrow> nat \<Rightarrow> nat \<Rightarrow> world \<Rightarrow> (error + 'a) \<times> world" where
  "withRetry fn functionName ticker maxRetries timeoutMs w =
     withRetry_loop fn functionName maxRetries timeoutMs 1 None w"

text \<open>
  One attempt of \<^verbatim>\<open>fetchNasdaqHalts\<close> started at time \<open>t\<close>: how long it takes and
  what the body of the \<^verbatim>\<open>try\<close> yields.
\<close>

definition halts_attempt :: "halts_config \<Rightarrow> nat \<Rightarrow> nat \<times> (error + HaltData list)" where
  "halts_attempt cfg t =
     (let r = h_net cfg halts_request t;
          elapsed = (if latency r < 8000 then latency r else 8000);
          out = (if latency r < 8000 then outcome r
                 else FetchError (AbortError ''This operation was aborted''))
      in (elapsed, halts_of_outcome cfg (t + elapsed) out))"

text \<open>Examples: an action and a feed that never answer in time.\<close>

definition slow_action :: "nat \<Rightarrow> unit settled" where
  "slow_action t = \<lparr>duration = 20000, result = Inr ()\<rparr>"

definition slow_feed :: halts_config where
  "slow_feed =
     \<lparr>h_net = (\<lambda>req t. \<lparr>latency = 60000, outcome = FetchError (Error ''socket hang up'')\<rparr>),
      h_json_parse = (\<lambda>s. None),
      h_load = (\<lambda>s. []),
      h_today = (\<lambda>t. demo_today)\<rparr>"

section \<open>Endpoint probing (api/market-data-api)\<close>

text \<open>\<^verbatim>\<open>s.includes(sub)\<close> and \<^verbatim>\<open>s.startsWith(c)\<close> for a one-character \<open>c\<close>.\<close>

fun includes_str :: "string \<Rightarrow> string \<Rightarrow> bool" where
  "includes_str [] sub = (sub = [])"
| "includes_str (c # cs) sub = (take (length sub) (c # cs) = sub \<or> includes_str cs sub)"

definition startsWith :: "string \<Rightarrow> char \<Rightarrow> bool" where
  "startsWith s c = (case s of [] \<Rightarrow> False | x # xs \<Rightarrow> x = c)"

text \<open>The test on the response text, with the quotes part of each substring.\<close>

definition isMarketData :: "string \<Rightarrow> bool" where
  \<open>isMarketData responseText =
     (includes_str responseText ''"price"'' \<or>
      includes_str responseText ''"last"'' \<or>
      includes_str responseText ''"bid"'' \<or>
      includes_str responseText ''"ask"'' \<or>
      includes_str responseText ''"volume"'' \<or>
      includes_str responseText ''"change"'' \<or>
      includes_str responseText ''"open"'' \<or>
      includes_str responseText ''"high"'' \<or>
      includes_str responseText ''"low"'')\<close>

definition accepted_text :: "string \<Rightarrow> bool" where
  "accepted_text responseText =
     (isMarketData responseText \<and>
      (startsWith responseText CHR ''{'' \<or> startsWith responseText CHR ''[''))"

text \<open>
  The accept rule in the words of the specification: the body parses as JSON or starts
  with a brace or bracket, and contains one of seven quoted field names.
\<close>

definition spec_fields :: "string list" where
  \<open>spec_fields = [''"price"'', ''"last"'', ''"bid"'', ''"ask"'', ''"volume"'', ''"change"'', ''"quote"'']\<close>

definition spec_accept :: "(string \<Rightarrow> bool) \<Rightarrow> string \<Rightarrow> bool" where
  "spec_accept parses body =
     ((parses body \<or> startsWith body CHR ''{'' \<or> startsWith body CHR ''['') \<and>
      (\<exists>k \<in> set spec_fields. includes_str body k))"

text \<open>The field names the code looks for.\<close>

definition code_fields :: "string list" where
  \<open>code_fields = [''"price"'', ''"last"'', ''"bid"'', ''"ask"'', ''"volume"'', ''"change"'',
                  ''"open"'', ''"high"'', ''"low"'']\<close>

text \<open>
  The candidates.  \<^verbatim>\<open>symbols\<close> is the query parameter, \<^verbatim>\<open>wmid\<close> and
  \<^verbatim>\<open>tmxSessionId\<close> come from the authentication step, \<^verbatim>\<open>dataToolToken\<close> from the
  token cache.
\<close>

definition apiEndpoints :: "string \<Rightarrow> string \<Rightarrow> string \<Rightarrow> request list" where
  "apiEndpoints symbols wmid dataToolToken =
     [\<lparr>req_url = ''https://appweb.quotestream.com/api/market/quotes?symbols='' @ symbols,
       req_method = ''GET'',
       req_headers =
         [(''Accept'', ''application/json''),
          (''Origin'', ''https://appweb.quotestream.com''),
          (''Referer'', ''https://appweb.quotestream.com/#/?wmid='' @ wmid
                         @ ''&showLogout=false&lang=en'')],
       req_body = NoBody\<rparr>,
      \<lparr>req_url = ''https://app.quotemedia.com/datatool/getQuote.json'',
       req_method = ''POST'',
       req_headers =
         [(''Content-Type'', ''application/x-www-form-urlencoded''),
          (''Accept'', ''application/json''),
          (''Origin'', ''https://tmxpowerstream.com''),
          (''Referer'', ''https://tmxpowerstream.com/powerStreamWeb.php'')],
       req_body = FormBody
         [(''symbols'', symbols), (''webmasterId'', wmid), (''datatool-token'', dataToolToken)]\<rparr>,
      \<lparr>req_url = ''https://app.quotemedia.com/quotetools/getQuote.json'',
       req_method = ''POST'',
       req_headers =
         [(''Content-Type'', ''application/x-www-form-urlencoded''),
          (''Accept'', ''application/json'')],
       req_body = FormBody [(''symbols'', symbols), (''webmasterId'', wmid)]\<rparr>,
      \<lparr>req_url = ''https://appweb.quotestream.com/realtime/stream?symbols='' @ symbols
                  @ ''&wmid='' @ wmid,
       req_method = ''GET'',
       req_headers =
         [(''Accept'', ''text/event-stream, application/json''),
          (''Cache-Control'', ''no-cache'')],
       req_body = NoBody\<rparr>]"

text \<open>
  The request sent for a candidate: its headers are merged, in order, into an object
  that starts with the \<^verbatim>\<open>User-Agent\<close>; a header with an empty value is left out.
\<close>

fun set_header :: "string \<Rightarrow> string \<Rightarrow> (string \<times> string) list \<Rightarrow> (string \<times> string) list" where
  "set_header k v [] = [(k, v)]"
| "set_header k v ((k', v') # hs) =
     (if k' = k then (k, v) # hs else (k', v') # set_header k v hs)"

definition merge_headers :: "(string \<times> string) list \<Rightarrow> (string \<times> string) list" where
  "merge_headers hs =
     foldl (\<lambda>acc (k, v). if v \<noteq> [] then set_header k v acc else acc)
       [(''User-Agent'', ''Mozilla/5.0 (X11; Linux x86_64) AppleWebKit/537.36 (KHTML, like Gecko) Chrome/141.0.0.0 Safari/537.36'')]
       hs"

definition request_of :: "request \<Rightarrow> request" where
  "request_of config = config\<lparr>req_headers := merge_headers (req_headers config)\<rparr>"

text \<open>
  What the route answers.  Of the response object the model keeps the parts that
  depend on the probing: the payload (\<^verbatim>\<open>data\<close> and \<^verbatim>\<open>quotes\<close>, or \<^verbatim>\<open>rawData\<close>) and
  the endpoint it came from.
\<close>

datatype api_response =
    MarketData json json string string
  | RawMarketData string string string
  | NoDirectAccess nat
  | ServerError error

text \<open>\<^verbatim>\<open>data.quotes || data.data || data\<close>\<close>

definition quotes_of :: "json \<Rightarrow> json" where
  "quotes_of data = jor (jor (oprop data ''quotes'') (oprop data ''data'')) data"

text \<open>
  The body of the accepting branch.  Building either response reads
  \<^verbatim>\<open>tmxSessionId.substring\<close>, which throws unless the session id is a string; the
  first throw lands in the \<^verbatim>\<open>catch\<close> of the \<^verbatim>\<open>JSON.parse\<close>, the second in the
  \<^verbatim>\<open>catch\<close> of the loop body, and the loop goes on.
\<close>

definition accept_response ::
    "(string \<Rightarrow> json option) \<Rightarrow> json \<Rightarrow> request \<Rightarrow> string \<Rightarrow> api_response option" where
  "accept_response parse tmxSessionId config responseText =
     (case tmxSessionId of
        JStr sid \<Rightarrow>
          (case parse responseText of
             Some data \<Rightarrow> Some (MarketData data (quotes_of data) (req_url config) (req_method config))
           | None \<Rightarrow> Some (RawMarketData responseText (req_url config) (req_method config)))
      | other \<Rightarrow> None)"

text \<open>The \<^verbatim>\<open>for\<close> loop over the candidates; \<open>None\<close> when it runs to its end.\<close>

fun probe ::
    "network \<Rightarrow> (string \<Rightarrow> json option) \<Rightarrow> json \<Rightarrow> request list \<Rightarrow> world
      \<Rightarrow> api_response option \<times> world" where
  "probe nw parse tmxSessionId [] w = (None, w)"
| "probe nw parse tmxSessionId (config # rest) w =
     (let (out, w1) = fetch nw (request_of config) w in
      case out of
        FetchError e \<Rightarrow> probe nw parse tmxSessionId rest w1
      | FetchResponse response \<Rightarrow>
          if resp_ok response \<and> accepted_text (resp_text response) then
            (case accept_response parse tmxSessionId config (resp_text response) of
               Some answer \<Rightarrow> (Some answer, w1)
             | None \<Rightarrow> probe nw parse tmxSessionId rest w1)
          else probe nw parse tmxSessionId rest w1)"

text \<open>The loop and what follows it in the handler.\<close>

definition probe_endpoints ::
    "network \<Rightarrow> (string \<Rightarrow> json option) \<Rightarrow> json \<Rightarrow> request list \<Rightarrow> world
      \<Rightarrow> api_response \<times> world" where
  "probe_endpoints nw parse tmxSessionId candidates w =
     (case probe nw parse tmxSessionId candidates w of
        (Some answer, w1) \<Rightarrow> (answer, w1)
      | (None, w1) \<Rightarrow>
          (case tmxSessionId of
             JStr sid \<Rightarrow> (NoDirectAccess (length candidates), w1)
           | other \<Rightarrow> (ServerError (TypeError ''tmxSessionId.substring is not a function''), w1)))"

text \<open>
  For stating what the loop does: the world after the first \<open>k\<close> candidates have
  been tried one after the other, and whether a candidate tried in a given world is
  accepted.
\<close>

fun world_after :: "network \<Rightarrow> request list \<Rightarrow> world \<Rightarrow> world" where
  "world_after nw [] w = w"
| "world_after nw (config # rest) w = world_after nw rest (snd (fetch nw (request_of config) w))"

definition accepted_at :: "network \<Rightarrow> request \<Rightarrow> world \<Rightarrow> bool" where
  "accepted_at nw config w =
     (case fst (fetch nw (request_of config) w) of
        FetchError e \<Rightarrow> False
      | FetchResponse response \<Rightarrow> resp_ok response \<and> accepted_text (resp_text response))"

definition payload_at ::
    "network \<Rightarrow> (string \<Rightarrow> json option) \<Rightarrow> request \<Rightarrow> world \<Rightarrow> api_response" where
  "payload_at nw parse config w =
     (case fst (fetch nw (request_of config) w) of
        FetchError e \<Rightarrow> ServerError e
      | FetchResponse response \<Rightarrow>
          (case parse (resp_text response) of
             Some data \<Rightarrow> MarketData data (quotes_of data) (req_url config) (req_method config)
           | None \<Rightarrow> RawMarketData (resp_text response) (req_url config) (req_method config)))"

text \<open>
  An example: three candidates, of which the first is answered with status 500 and
  the other two with quote data.
\<close>

definition cand_A :: request where
  "cand_A = \<lparr>req_url = ''A'', req_method = ''GET'', req_headers = [], req_body = NoBody\<rparr>"

definition cand_B :: request where
  "cand_B = \<lparr>req_url = ''B'', req_method = ''GET'', req_headers = [], req_body = NoBody\<rparr>"

definition cand_C :: request where
  "cand_C = \<lparr>req_url = ''C'', req_method = ''GET'', req_headers = [], req_body = NoBody\<rparr>"

definition abc_net :: network where
  \<open>abc_net = (\<lambda>req t.
     if req_url req = ''A'' then
       \<lparr>latency = 7, outcome = FetchResponse
          \<lparr>resp_status = 500, resp_statusText = ''Internal Server Error'', resp_text = ''oops''\<rparr>\<rparr>
     else if req_url req = ''B'' then
       \<lparr>latency = 7, outcome = FetchResponse
          \<lparr>resp_status = 200, resp_statusText = ''OK'', resp_text = ''{"price":1}''\<rparr>\<rparr>
     else
       \<lparr>latency = 7, outcome = FetchResponse
          \<lparr>resp_status = 200, resp_statusText = ''OK'', resp_text = ''{"last":2}''\<rparr>\<rparr>)\<close>

definition abc_parse :: "string \<Rightarrow> json option" where
  \<open>abc_parse s =
     (if s = ''{"price":1}'' then Some (JObj [(''price'', JNum 1)])
      else if s = ''{"last":2}'' then Some (JObj [(''last'', JNum 2)])
      else None)\<close>

section \<open>Quote normalisation (api/tmx-quotemedia-proxy)\<close>

subsection \<open>The mapping of the market stats\<close>

text \<open>
  The choice of the list of stocks in the parsed response.  \<^verbatim>\<open>Object.keys\<close> in the
  last branch throws on \<^verbatim>\<open>null\<close>.
\<close>

definition marketStats_of :: "json \<Rightarrow> error + json" where
  "marketStats_of jsonData =
     (if truthy jsonData \<and> truthy (oprop jsonData ''results'')
         \<and> truthy (oprop (oprop jsonData ''results'') ''quote'')
      then Inr (oprop (oprop jsonData ''results'') ''quote'')
      else if truthy jsonData \<and> truthy (oprop jsonData ''results'')
         \<and> truthy (oprop (oprop jsonData ''results'') ''stock'')
      then Inr (oprop (oprop jsonData ''results'') ''stock'')
      else if truthy jsonData \<and> (case jsonData of JArr xs \<Rightarrow> True | other \<Rightarrow> False)
      then Inr jsonData
      else (case jsonData of
              JNull \<Rightarrow> Inl (TypeError ''Cannot convert undefined or null to object'')
            | JUndefined \<Rightarrow> Inl (TypeError ''Cannot convert undefined or null to object'')
            | other \<Rightarrow> Inr (JArr [])))"

text \<open>
  The arrow function given to \<^verbatim>\<open>map\<close>.  The first property read throws when the
  element is \<^verbatim>\<open>null\<close> or \<^verbatim>\<open>undefined\<close>; after that every read is either on the
  element itself or guarded by \<^verbatim>\<open>?.\<close>.  \<open>now\<close> is \<^verbatim>\<open>new Date().toISOString()\<close>.
\<close>

definition transform_stock :: "string \<Rightarrow> json \<Rightarrow> error + json" where
  "transform_stock now stock =
     (let pricedata = oprop stock ''pricedata'';
          key = oprop stock ''key'';
          fundamental = oprop stock ''fundamental'';
          equityinfo = oprop stock ''equityinfo''
      in case getprop stock ''key'' of
        Inl e \<Rightarrow> Inl e
      | Inr k \<Rightarrow> Inr (JObj
         [(''symbol'', jor (jor (oprop key ''symbol'') (oprop stock ''symbol'')) (JStr ''N/A'')),
          (''price'', parseFloat (jor (jor (jor (oprop pricedata ''last'') (oprop stock ''last''))
                                  (oprop stock ''price'')) (JNum 0))),
          (''change'', parseFloat (jor (jor (oprop pricedata ''change'') (oprop stock ''change''))
                                  (JNum 0))),
          (''changePercent'', parseFloat (jor (jor (jor (oprop pricedata ''changepercent'')
                                  (oprop stock ''changepercent'')) (oprop stock ''changePercent''))
                                  (JNum 0))),
          (''tick'', parseInt (jor (oprop pricedata ''tick'') (JNum 0))),
          (''open'', parseFloat (jor (jor (oprop pricedata ''open'') (oprop stock ''open''))
                                  (JNum 0))),
          (''high'', parseFloat (jor (jor (oprop pricedata ''high'') (oprop stock ''high''))
                                  (JNum 0))),
          (''low'', parseFloat (jor (jor (oprop pricedata ''low'') (oprop stock ''low''))
                                  (JNum 0))),
          (''previousClose'', parseFloat (jor (jor (jor (oprop pricedata ''prevclose'')
                                  (oprop stock ''prevclose'')) (oprop stock ''previousClose''))
                                  (JNum 0))),
          (''bid'', parseFloat (jor (jor (oprop pricedata ''bid'') (oprop stock ''bid''))
                                  (JNum 0))),
          (''ask'', parseFloat (jor (jor (oprop pricedata ''ask'') (oprop stock ''ask''))
                                  (JNum 0))),
          (''bidSize'', parseInt (jor (jor (oprop pricedata ''bidsize'') (oprop stock ''bidsize''))
                                  (JNum 0))),
          (''askSize'', parseInt (jor (jor (oprop pricedata ''asksize'') (oprop stock ''asksize''))
                                  (JNum 0))),
          (''rawBidSize'', parseInt (jor (jor (oprop pricedata ''rawbidsize'')
                                  (oprop stock ''rawbidsize'')) (JNum 0))),
          (''rawAskSize'', parseInt (jor (jor (oprop pricedata ''rawasksize'')
                                  (oprop stock ''rawasksize'')) (JNum 0))),
          (''tradevolume'', parseInt (jor (jor (oprop pricedata ''tradevolume'')
                                  (oprop stock ''tradevolume'')) (JNum 0))),
          (''sharevolume'', parseInt (jor (jor (jor (oprop pricedata ''sharevolume'')
                                  (oprop stock ''sharevolume'')) (oprop stock ''volume''))
                                  (JNum 0))),
          (''volume'', parseInt (jor (jor (jor (oprop pricedata ''sharevolume'')
                                  (oprop stock ''sharevolume'')) (oprop stock ''volume''))
                                  (JNum 0))),
          (''vwap'', parseFloat (jor (jor (oprop pricedata ''vwap'') (oprop stock ''vwap''))
                                  (JNum 0))),
          (''vwapvolume'', parseInt (jor (jor (oprop pricedata ''vwapvolume'')
                                  (oprop stock ''vwapvolume'')) (JNum 0))),
          (''marketCap'', jor (jor (oprop stock ''marketcap'') (oprop fundamental ''marketcap''))
                                  (JNum 0)),
          (''eps'', jor (jor (oprop stock ''eps'') (oprop fundamental ''eps'')) JNull),
          (''peRatio'', jor (jor (oprop stock ''peratio'') (oprop fundamental ''peratio'')) JNull),
          (''pbRatio'', jor (jor (oprop stock ''pbratio'') (oprop fundamental ''pbratio'')) JNull),
          (''week52High'', jor (jor (oprop stock ''week52high'')
                                  (oprop (oprop fundamental ''week52high'') ''content''))
                                  (JNum 0)),
          (''week52Low'', jor (jor (oprop stock ''week52low'')
                                  (oprop (oprop fundamental ''week52low'') ''content''))
                                  (JNum 0)),
          (''exchange'', jor (jor (oprop stock ''exchange'') (oprop key ''exchange''))
                                  (JStr ''US'')),
          (''exchangeLongName'', jor (jor (oprop stock ''exchangeLongName'')
                                  (oprop key ''exLgName'')) (JStr ''US Exchange'')),
          (''companyName'', jor (jor (jor (jor (oprop equityinfo ''longname'')
                                  (oprop stock ''companyname'')) (oprop stock ''longname''))
                                  (oprop equityinfo ''shortname'')) (JStr ''N/A'')),
          (''shortName'', jor (jor (jor (oprop equityinfo ''shortname'')
                                  (oprop stock ''shortname'')) (oprop equityinfo ''longname''))
                                  (JStr ''N/A'')),
          (''datatype'', jor (oprop stock ''datatype'') (JStr ''equity'')),
          (''symbolString'', jor (jor (oprop key ''symbol'') (oprop stock ''symbolstring''))
                                  (oprop stock ''symbol'')),
          (''lastTradeTime'', jor (jor (oprop pricedata ''lasttradedatetime'')
                                  (oprop stock ''lasttradedatetime'')) (JStr now)),
          (''entitlement'', jor (oprop stock ''entitlement'') (JStr ''RT''))]))"

text \<open>\<^verbatim>\<open>xs.map(f)\<close> for an \<open>f\<close> that may throw: the first throw ends the whole call.\<close>

fun map_throwing :: "('a \<Rightarrow> error + 'b) \<Rightarrow> 'a list \<Rightarrow> error + 'b list" where
  "map_throwing f [] = Inr []"
| "map_throwing f (x # xs) =
     (case f x of
        Inl e \<Rightarrow> Inl e
      | Inr y \<Rightarrow> (case map_throwing f xs of Inl e \<Rightarrow> Inl e | Inr ys \<Rightarrow> Inr (y # ys)))"

text \<open>
  \<^verbatim>\<open>transformedData.quotes\<close> for a parsed response: \<^verbatim>\<open>marketStats.map\<close> exists only
  on an array.
\<close>

definition transform_quotes :: "string \<Rightarrow> json \<Rightarrow> error + json list" where
  "transform_quotes now jsonData =
     (case marketStats_of jsonData of
        Inl e \<Rightarrow> Inl e
      | Inr (JArr stocks) \<Rightarrow> map_throwing (transform_stock now) stocks
      | Inr other \<Rightarrow> Inl (TypeError ''marketStats.map is not a function''))"

text \<open>
  Where each numeric or optional field of a quote comes from, and what it is when
  none of its sources has a (truthy) value.  A source is a path of property names
  below the stock.
\<close>

fun read_path :: "json \<Rightarrow> string list \<Rightarrow> json" where
  "read_path v [] = v"
| "read_path v (k # ks) = read_path (oprop v k) ks"

definition numeric_fields :: "(string \<times> string list list \<times> json) list" where
  "numeric_fields =
     [(''price'', [[''pricedata'', ''last''], [''last''], [''price'']], JNum 0),
      (''change'', [[''pricedata'', ''change''], [''change'']], JNum 0),
      (''changePercent'',
         [[''pricedata'', ''changepercent''], [''changepercent''], [''changePercent'']], JNum 0),
      (''tick'', [[''pricedata'', ''tick'']], JNum 0),
      (''open'', [[''pricedata'', ''open''], [''open'']], JNum 0),
      (''high'', [[''pricedata'', ''high''], [''high'']], JNum 0),
      (''low'', [[''pricedata'', ''low''], [''low'']], JNum 0),
      (''previousClose'',
         [[''pricedata'', ''prevclose''], [''prevclose''], [''previousClose'']], JNum 0),
      (''bid'', [[''pricedata'', ''bid''], [''bid'']], JNum 0),
      (''ask'', [[''pricedata'', ''ask''], [''ask'']], JNum 0),
      (''bidSize'', [[''pricedata'', ''bidsize''], [''bidsize'']], JNum 0),
      (''askSize'', [[''pricedata'', ''asksize''], [''asksize'']], JNum 0),
      (''rawBidSize'', [[''pricedata'', ''rawbidsize''], [''rawbidsize'']], JNum 0),
      (''rawAskSize'', [[''pricedata'', ''rawasksize''], [''rawasksize'']], JNum 0),
      (''tradevolume'', [[''pricedata'', ''tradevolume''], [''tradevolume'']], JNum 0),
      (''sharevolume'', [[''pricedata'', ''sharevolume''], [''sharevolume''], [''volume'']], JNum 0),
      (''volume'', [[''pricedata'', ''sharevolume''], [''sharevolume''], [''volume'']], JNum 0),
      (''vwap'', [[''pricedata'', ''vwap''], [''vwap'']], JNum 0),
      (''vwapvolume'', [[''pricedata'', ''vwapvolume''], [''vwapvolume'']], JNum 0),
      (''marketCap'', [[''marketcap''], [''fundamental'', ''marketcap'']], JNum 0),
      (''eps'', [[''eps''], [''fundamental'', ''eps'']], JNull),
      (''peRatio'', [[''peratio''], [''fundamental'', ''peratio'']], JNull),
      (''pbRatio'', [[''pbratio''], [''fundamental'', ''pbratio'']], JNull),
      (''week52High'', [[''week52high''], [''fundamental'', ''week52high'', ''content'']], JNum 0),
      (''week52Low'', [[''week52low''], [''fundamental'', ''week52low'', ''content'']], JNum 0)]"

text \<open>The input of the example: one stock with a symbol, a last price and a change.\<close>

definition aapl_stock :: json where
  "aapl_stock =
     JObj [(''key'', JObj [(''symbol'', JStr ''AAPL'')]),
           (''pricedata'', JObj [(''last'', JNum (25806 / 100)), (''change'', JNum (12 / 10))])]"

definition aapl_response :: json where
  "aapl_response = JObj [(''results'', JObj [(''quote'', JArr [aapl_stock])])]"

subsection \<open>Regular expressions\<close>

text \<open>
  The patterns of \<^verbatim>\<open>parseTMXMarketData\<close> are sequences of literals and of starred
  character classes, with at most one group.  A pattern is a list of atoms, matched
  by backtracking in the order the JavaScript engine tries the alternatives: a greedy
  star takes one more character before it tries to go on, a lazy star tries to go on
  before it takes one more character.  \<open>Mark\<close> stands for a parenthesis of the group.
\<close>

datatype cls = AnyChar | Space | NotCh char

fun in_cls :: "cls \<Rightarrow> char \<Rightarrow> bool" where
  "in_cls AnyChar c = True"
| "in_cls Space c = is_space c"
| "in_cls (NotCh x) c = (c \<noteq> x)"

datatype atom = Lit string | LitCI string | One cls | StarG cls | StarL cls | Mark

definition lower :: "char \<Rightarrow> char" where
  "lower c =
     (case map_of (zip ''ABCDEFGHIJKLMNOPQRSTUVWXYZ'' ''abcdefghijklmnopqrstuvwxyz'') c of
        None \<Rightarrow> c
      | Some l \<Rightarrow> l)"

text \<open>A match that starts later: the marks and the length move by \<open>k\<close>.\<close>

definition shift :: "nat \<Rightarrow> (nat list \<times> nat) option \<Rightarrow> (nat list \<times> nat) option" where
  "shift k r = map_option (\<lambda>(ms, n). (map (\<lambda>m. m + k) ms, n + k)) r"

text \<open>
  A match of the pattern at the start of the string: the offsets of its marks and
  the number of characters it takes.
\<close>

fun matches :: "atom list \<Rightarrow> string \<Rightarrow> (nat list \<times> nat) option" where
  "matches [] s = Some ([], 0)"
| "matches (Lit l # as) s =
     (if take (length l) s = l then shift (length l) (matches as (drop (length l) s)) else None)"
| "matches (LitCI l # as) s =
     (if map lower (take (length l) s) = map lower l
      then shift (length l) (matches as (drop (length l) s)) else None)"
| "matches (One c # as) s =
     (case s of
        [] \<Rightarrow> None
      | x # xs \<Rightarrow> if in_cls c x then shift 1 (matches as xs) else None)"
| "matches (StarG c # as) s =
     (case s of
        [] \<Rightarrow> matches as s
      | x # xs \<Rightarrow>
          if in_cls c x then
            (case matches (StarG c # as) xs of
               Some r \<Rightarrow> shift 1 (Some r)
             | None \<Rightarrow> matches as s)
          else matches as s)"
| "matches (StarL c # as) s =
     (case matches as s of
        Some r \<Rightarrow> Some r
      | None \<Rightarrow>
          (case s of
             [] \<Rightarrow> None
           | x # xs \<Rightarrow> if in_cls c x then shift 1 (matches (StarL c # as) xs) else None))"
| "matches (Mark # as) s = map_option (\<lambda>(ms, n). (0 # ms, n)) (matches as s)"

text \<open>The leftmost match: where it starts, its marks, its length.\<close>

fun search :: "atom list \<Rightarrow> string \<Rightarrow> (nat \<times> nat list \<times> nat) option" where
  "search p [] = map_option (\<lambda>(ms, n). (0, ms, n)) (matches p [])"
| "search p (x # xs) =
     (case matches p (x # xs) of
        Some (ms, n) \<Rightarrow> Some (0, ms, n)
      | None \<Rightarrow> map_option (\<lambda>(k, ms, n). (Suc k, ms, n)) (search p xs))"

text \<open>\<^verbatim>\<open>s.match(p)\<close> without the \<^verbatim>\<open>g\<close> flag: the whole match, and the group.\<close>

definition match_whole :: "atom list \<Rightarrow> string \<Rightarrow> string option" where
  "match_whole p s = map_option (\<lambda>(k, ms, n). take n (drop k s)) (search p s)"

definition match_group :: "atom list \<Rightarrow> string \<Rightarrow> string option" where
  "match_group p s =
     (case search p s of
        Some (k, [m1, m2], n) \<Rightarrow> Some (take (m2 - m1) (drop (k + m1) s))
      | other \<Rightarrow> None)"

text \<open>
  \<^verbatim>\<open>s.match(p) || []\<close> with the \<^verbatim>\<open>g\<close> flag: all matches from left to right, each
  starting where the one before ended (one character further after an empty match).
\<close>

function match_all :: "atom list \<Rightarrow> string \<Rightarrow> string list" where
  "match_all p s =
     (case search p s of
        None \<Rightarrow> []
      | Some (k, ms, n) \<Rightarrow>
          take n (drop k s) # (if s = [] then [] else match_all p (drop (k + max 1 n) s)))"
  by pat_completeness auto
termination
  by (relation "measure (\<lambda>(p, s). length s)") (auto simp: neq_Nil_conv max_def)

declare match_all.simps [simp del]

text \<open>\<^verbatim>\<open>s.replace(p, '')\<close> with the \<^verbatim>\<open>g\<close> flag, for a pattern without empty matches.\<close>

function remove_all :: "atom list \<Rightarrow> string \<Rightarrow> string" where
  "remove_all p s =
     (case search p s of
        None \<Rightarrow> s
      | Some (k, ms, n) \<Rightarrow>
          take k s @ (if s = [] \<or> n = 0 then drop k s else remove_all p (drop (k + n) s)))"
  by pat_completeness auto
termination
  by (relation "measure (\<lambda>(p, s). length s)") (auto simp: neq_Nil_conv)

declare remove_all.simps [simp del]

subsection \<open>\<^verbatim>\<open>parseTMXMarketData\<close>\<close>

definition object_group :: "atom list" where
  "object_group = [Mark, Lit ''{'', StarL AnyChar, Lit ''}'', Mark, Lit '';'']"

definition jsDataPatterns :: "atom list list" where
  \<open>jsDataPatterns =
     [[Lit ''var'', One Space, StarG Space, Lit ''data'', StarG Space, Lit ''='', StarG Space]
        @ object_group,
      [Lit ''window.marketData'', StarG Space, Lit ''='', StarG Space] @ object_group,
      [Lit ''"quotes":'', StarG Space, Mark, Lit ''['', StarL AnyChar, Lit '']'', Mark],
      [Lit ''marketMoversData'', StarG Space, Lit ''='', StarG Space] @ object_group]\<close>

definition json_in_html :: "atom list" where
  "json_in_html = [Lit ''{'', StarG AnyChar, Lit ''}'']"

definition tr_pattern :: "atom list" where
  "tr_pattern = [LitCI ''<tr'', StarG (NotCh CHR ''>''), Lit ''>'', StarL AnyChar, LitCI ''</tr>'']"

definition td_pattern :: "atom list" where
  "td_pattern =
     [LitCI ''<td'', StarG (NotCh CHR ''>''), Lit ''>'', Mark, StarL AnyChar, Mark, LitCI ''</td>'']"

definition tag_pattern :: "atom list" where
  "tag_pattern = [Lit ''<'', StarG (NotCh CHR ''>''), Lit ''>'']"

text \<open>
  What is returned for a parsed value that is an object: the value itself when it is
  an array, else its \<^verbatim>\<open>quotes\<close>, \<^verbatim>\<open>data\<close> or (in the pattern loop only)
  \<^verbatim>\<open>results\<close> when that is an array.
\<close>

fun as_array :: "json \<Rightarrow> json list option" where
  "as_array (JArr xs) = Some xs"
| "as_array v = None"

definition structured_data :: "bool \<Rightarrow> json \<Rightarrow> json list option" where
  "structured_data with_results jsonData =
     (case jsonData of
        JArr xs \<Rightarrow> Some xs
      | JObj kvs \<Rightarrow>
          (case as_array (alookup kvs ''quotes'') of
             Some xs \<Rightarrow> Some xs
           | None \<Rightarrow>
               (case as_array (alookup kvs ''data'') of
                  Some xs \<Rightarrow> Some xs
                | None \<Rightarrow> if with_results then as_array (alookup kvs ''results'') else None))
      | other \<Rightarrow> None)"

text \<open>
  The loop over the patterns: a pattern that does not match, a group that does not
  parse (the exception is caught) and a value without an array all lead on to the
  next pattern.
\<close>

fun first_pattern_data :: "(string \<Rightarrow> json option) \<Rightarrow> atom list list \<Rightarrow> string \<Rightarrow> json list option" where
  "first_pattern_data parse [] htmlText = None"
| "first_pattern_data parse (pattern # patterns) htmlText =
     (case match_group pattern htmlText of
        None \<Rightarrow> first_pattern_data parse patterns htmlText
      | Some captured \<Rightarrow>
          (case parse captured of
             None \<Rightarrow> first_pattern_data parse patterns htmlText
           | Some jsonData \<Rightarrow>
               (case structured_data True jsonData of
                  Some xs \<Rightarrow> Some xs
                | None \<Rightarrow> first_pattern_data parse patterns htmlText)))"

text \<open>Both searches for embedded data, in the order of the code.\<close>

definition embedded_data :: "(string \<Rightarrow> json option) \<Rightarrow> string \<Rightarrow> json list option" where
  "embedded_data parse htmlText =
     (case first_pattern_data parse jsDataPatterns htmlText of
        Some xs \<Rightarrow> Some xs
      | None \<Rightarrow>
          (case match_whole json_in_html htmlText of
             None \<Rightarrow> None
           | Some text \<Rightarrow>
               (case parse text of
                  None \<Rightarrow> None
                | Some jsonData \<Rightarrow> structured_data False jsonData)))"

text \<open>\<^verbatim>\<open>cell.replace(/<[^>]*>/g, '').trim()\<close>\<close>

definition cell_text :: "string \<Rightarrow> string" where
  "cell_text cell = trim (remove_all tag_pattern cell)"

text \<open>The record pushed for a table row, or nothing.  \<open>now\<close> is the time stamp.\<close>

definition row_quote :: "string \<Rightarrow> string \<Rightarrow> json list" where
  "row_quote now row =
     (case match_all td_pattern row of
        c0 # c1 # c2 # cells \<Rightarrow>
          if cell_text c0 \<noteq> [] \<and> cell_text c1 \<noteq> [] then
            [JObj [(''symbol'', JStr (cell_text c0)),
                   (''last'', jor (parseFloat_str (cell_text c1)) (JNum 0)),
                   (''change'', jor (parseFloat_str (cell_text c2)) (JNum 0)),
                   (''source'', JStr ''TMX PowerStream''),
                   (''timestamp'', JStr now)]]
          else []
      | other \<Rightarrow> [])"

definition table_quotes :: "string \<Rightarrow> string \<Rightarrow> json list" where
  "table_quotes now htmlText = concat (map (row_quote now) (match_all tr_pattern htmlText))"

text \<open>
  The placeholder.  \<^verbatim>\<open>htmlText.length\<close> is the number of characters of the
  model's string.
\<close>

definition debug_record :: "string \<Rightarrow> string \<Rightarrow> json" where
  "debug_record now htmlText =
     JObj [(''symbol'', JStr ''DEBUG''),
           (''last'', JNum 0),
           (''change'', JNum 0),
           (''source'', JStr ''TMX PowerStream''),
           (''timestamp'', JStr now),
           (''rawHtmlLength'', JNum (of_nat (length htmlText))),
           (''debug'', JStr ''No parseable market data found in HTML response'')]"

text \<open>
  The function.  Every \<^verbatim>\<open>JSON.parse\<close> has its own \<^verbatim>\<open>try\<close>, and no other step
  throws on a string, so the outer \<^verbatim>\<open>catch\<close> with its \<^verbatim>\<open>ERROR\<close> record is not
  reached.
\<close>

definition parseTMXMarketData :: "(string \<Rightarrow> json option) \<Rightarrow> string \<Rightarrow> string \<Rightarrow> json list" where
  "parseTMXMarketData parse now htmlText =
     (case embedded_data parse htmlText of
        Some xs \<Rightarrow> xs
      | None \<Rightarrow>
          (let quotes = table_quotes now htmlText in
           if quotes = [] then [debug_record now htmlText] else quotes))"

text \<open>Examples: a table row, and text without any structure.\<close>

definition demo_table_html :: string where
  "demo_table_html = ''<tr><td>AAPL</td><td>258.06</td><td><b>1.2</b></td></tr>''"

definition demo_time :: string where
  "demo_time = ''2026-11-03T09:41:05.000Z''"


section \<open>Properties of the credential cache\<close>

lemma requests_issue [simp]: "requests (issue req w) = requests w @ [req]"
  by (simp add: requests_def issue_def)

lemma requests_clock_update [simp]: "requests (w\<lparr>clock := t\<rparr>) = requests w"
  by (simp add: requests_def)

lemma clock_issue [simp]: "clock (issue req w) = clock w"
  by (simp add: issue_def)



lemma getQuoteMediaSid_resume_inv:
  "cache_inv c \<Longrightarrow> getQuoteMediaSid_resume cfg out c now = (r, c') \<Longrightarrow> cache_inv c'"
  by (auto simp: getQuoteMediaSid_resume_def cache_inv_def
        split: fetch_outcome.splits option.splits sum.splits if_splits)

lemma getQuoteMediaSid_inv:
  "cache_inv c \<Longrightarrow> cache_inv (fst (snd (getQuoteMediaSid cfg (c, w))))"
  by (auto simp: getQuoteMediaSid_def Let_def split: suspended.splits prod.splits
        dest: getQuoteMediaSid_resume_inv)

lemma generateDataToolToken_inv:
  "cache_inv c \<Longrightarrow> cache_inv (fst (snd (generateDataToolToken cfg (c, w))))"
proof -
  assume inv: "cache_inv c"
  obtain r c1 w1 where sid: "getQuoteMediaSid cfg (c, w) = (r, c1, w1)"
    by (metis prod_cases3)
  have inv1: "cache_inv c1"
    using getQuoteMediaSid_inv [OF inv, of cfg w] sid by simp
  show ?thesis
  proof (cases "truthy (cachedDataToolToken c) \<and> live (tokenExpiration c) (clock w)")
    case True
    then show ?thesis using inv by (simp add: generateDataToolToken_def)
  next
    case False
    show ?thesis
    proof (cases r)
      case (Inl e)
      then show ?thesis using inv1 by (simp add: generateDataToolToken_def False sid)
    next
      case (Inr v)
      then show ?thesis using inv1
        by (simp add: generateDataToolToken_def False sid Let_def cache_inv_def
              split: prod.splits fetch_outcome.splits option.splits sum.splits)
    qed
  qed
qed

lemma reachable_inv: "reachable cfg s \<Longrightarrow> cache_inv (fst s)"
proof (induction rule: reachable.induct)
  case (r_init w)
  show ?case by (simp add: cache_inv_def init_cache_def)
next
  case (r_sid s)
  then show ?case using getQuoteMediaSid_inv [of "fst s" cfg "snd s"] by simp
next
  case (r_token s)
  then show ?case using generateDataToolToken_inv [of "fst s" cfg "snd s"] by simp
next
  case (r_clearSid c w)
  then show ?case by (simp add: cache_inv_def clearCachedSid_def)
next
  case (r_clearToken c w)
  then show ?case by (simp add: cache_inv_def clearCachedToken_def)
next
  case (r_tick c w d)
  then show ?case by simp
qed

lemma sid_hit_returns:
  "cache_inv c \<Longrightarrow> sid_hit c (clock w) \<Longrightarrow>
   getQuoteMediaSid cfg (c, w) = (Inr (cachedSid c), c, w)"
  by (auto simp: getQuoteMediaSid_def getQuoteMediaSid_start_def sid_hit_def cache_inv_def live_def)

lemma token_hit_returns:
  "cache_inv c \<Longrightarrow> token_hit c (clock w) \<Longrightarrow>
   generateDataToolToken cfg (c, w) = (Inr (cachedDataToolToken c), c, w)"
  by (auto simp: generateDataToolToken_def token_hit_def cache_inv_def live_def)

lemma sid_refresh_stores:
  assumes "\<not> (truthy (cachedSid c) \<and> live (sidExpiration c) (clock w))"
    and "getQuoteMediaSid cfg (c, w) = (Inr v, c', w')"
  shows "cachedSid c' = v \<and> sidExpiration c' = Some (clock w' + 60 * 60 * 1000)
         \<and> cachedDataToolToken c' = cachedDataToolToken c \<and> tokenExpiration c' = tokenExpiration c"
  using assms
  by (auto simp: getQuoteMediaSid_def getQuoteMediaSid_start_def getQuoteMediaSid_resume_def
        Let_def split: if_splits prod.splits fetch_outcome.splits option.splits sum.splits)

lemma token_refresh_stores:
  assumes miss: "\<not> (truthy (cachedDataToolToken c) \<and> live (tokenExpiration c) (clock w))"
    and run: "generateDataToolToken cfg (c, w) = (Inr v, c', w')"
  shows "cachedDataToolToken c' = v \<and> tokenExpiration c' = Some (clock w' + 30 * 60 * 1000)"
proof -
  obtain r c1 w1 where sid: "getQuoteMediaSid cfg (c, w) = (r, c1, w1)"
    by (metis prod_cases3)
  show ?thesis
  proof (cases r)
    case (Inl e)
    then show ?thesis using run by (simp add: generateDataToolToken_def miss sid)
  next
    case (Inr sidv)
    then show ?thesis using run
      by (simp add: generateDataToolToken_def miss sid Let_def
            split: prod.splits fetch_outcome.splits option.splits sum.splits if_splits) auto
  qed
qed

lemma demo_sid_run:
  "getQuoteMediaSid demo_config (init_cache, demo_world) =
     (Inr (JStr ''S1''), demo_cache_sid, demo_world_sid)"
  by (simp add: getQuoteMediaSid_def getQuoteMediaSid_start_def getQuoteMediaSid_resume_def
        fetch_def issue_def init_cache_def live_def env_or_def resp_ok_def demo_config_def
        demo_world_def demo_cache_sid_def demo_world_sid_def Let_def)

lemma demo_token_run:
  "generateDataToolToken demo_config (init_cache, demo_world) =
     (Inr (JStr ''T1''), demo_cache_token, demo_world_token)"
  unfolding generateDataToolToken_def
  by (simp add: demo_sid_run)
     (simp add: fetch_def issue_def init_cache_def live_def resp_ok_def demo_config_def
        demo_cache_sid_def demo_world_sid_def demo_cache_token_def demo_world_token_def Let_def)

lemma demo_token_reachable: "reachable demo_config (demo_cache_token, demo_world_token)"
  using r_token [OF r_init, of demo_config demo_world] by (simp add: demo_token_run)


text \<open>
  Claim C1.  In every state the module can reach, for the session id and for the
  datatool token alike: if a cached value exists and the clock is strictly before its
  stored expiration, the call returns that very value and leaves the cache and the
  world (clock and request log) as they were, so no request is issued.  On a cache
  miss, a call that returns a value has stored that value with an expiration of the
  clock at the time of storing plus 60 minutes (session id) or 30 minutes (token).
\<close>

theorem cache_hit_and_refresh:
  assumes "reachable cfg (c, w)"
  shows "(sid_hit c (clock w) \<longrightarrow> getQuoteMediaSid cfg (c, w) = (Inr (cachedSid c), c, w)) \<and>
         (token_hit c (clock w) \<longrightarrow>
            generateDataToolToken cfg (c, w) = (Inr (cachedDataToolToken c), c, w)) \<and>
         (\<not> sid_hit c (clock w) \<and> getQuoteMediaSid cfg (c, w) = (Inr v, c', w') \<longrightarrow>
            cachedSid c' = v \<and> sidExpiration c' = Some (clock w' + 60 * 60000)) \<and>
         (\<not> token_hit c (clock w) \<and> generateDataToolToken cfg (c, w) = (Inr t, c'', w'') \<longrightarrow>
            cachedDataToolToken c'' = t \<and> tokenExpiration c'' = Some (clock w'' + 30 * 60000))"
proof -
  have inv: "cache_inv c"
    using reachable_inv [OF assms] by simp
  have sid_miss: "\<not> (truthy (cachedSid c) \<and> live (sidExpiration c) (clock w))"
    if "\<not> sid_hit c (clock w)"
    using that by (auto simp: sid_hit_def live_def split: option.splits)
  have token_miss: "\<not> (truthy (cachedDataToolToken c) \<and> live (tokenExpiration c) (clock w))"
    if "\<not> token_hit c (clock w)"
    using that by (auto simp: token_hit_def live_def split: option.splits)
  show ?thesis
    using sid_hit_returns [OF inv, of w cfg] token_hit_returns [OF inv, of w cfg]
      sid_refresh_stores [of c w cfg v c' w'] token_refresh_stores [of c w cfg t c'' w'']
      sid_miss token_miss
    by auto
qed

theorem cache_hit_and_refresh_witness:
  "reachable demo_config (demo_cache_token, demo_world_token) \<and>
   sid_hit demo_cache_token (clock demo_world_token) \<and>
   token_hit demo_cache_token (clock demo_world_token) \<and>
   getQuoteMediaSid demo_config (demo_cache_token, demo_world_token) =
     (Inr (JStr ''S1''), demo_cache_token, demo_world_token) \<and>
   generateDataToolToken demo_config (demo_cache_token, demo_world_token) =
     (Inr (JStr ''T1''), demo_cache_token, demo_world_token) \<and>
   reachable demo_config (init_cache, demo_world) \<and>
   \<not> sid_hit init_cache (clock demo_world) \<and>
   \<not> token_hit init_cache (clock demo_world) \<and>
   getQuoteMediaSid demo_config (init_cache, demo_world) =
     (Inr (JStr ''S1''), demo_cache_sid, demo_world_sid) \<and>
   generateDataToolToken demo_config (init_cache, demo_world) =
     (Inr (JStr ''T1''), demo_cache_token, demo_world_token) \<and>
   cachedSid demo_cache_sid = JStr ''S1'' \<and>
   sidExpiration demo_cache_sid = Some (clock demo_world_sid + 60 * 60000) \<and>
   cachedDataToolToken demo_cache_token = JStr ''T1'' \<and>
   tokenExpiration demo_cache_token = Some (clock demo_world_token + 30 * 60000)"
proof -
  have hit: "sid_hit demo_cache_token (clock demo_world_token)"
    "token_hit demo_cache_token (clock demo_world_token)"
    by (simp_all add: sid_hit_def token_hit_def demo_cache_token_def demo_world_token_def)
  have miss: "\<not> sid_hit init_cache (clock demo_world)" "\<not> token_hit init_cache (clock demo_world)"
    by (simp_all add: sid_hit_def token_hit_def init_cache_def)
  have vals: "cachedSid demo_cache_token = JStr ''S1''"
    "cachedDataToolToken demo_cache_token = JStr ''T1''"
    by (simp_all add: demo_cache_token_def)
  note a = cache_hit_and_refresh [OF demo_token_reachable]
  note b = cache_hit_and_refresh [where cfg = demo_config and c = init_cache and w = demo_world
      and v = "JStr ''S1''" and c' = demo_cache_sid and w' = demo_world_sid
      and t = "JStr ''T1''" and c'' = demo_cache_token and w'' = demo_world_token, OF r_init]
  show ?thesis
    using a b hit miss vals demo_sid_run demo_token_run demo_token_reachable
      r_init [of demo_config demo_world]
    by simp
qed

text \<open>
  Claim C10.  \<^verbatim>\<open>clearCachedSid\<close> resets the cached session id and its expiration and
  leaves the cached token and its expiration as they are; so, in every reachable
  state with a cached token whose own expiration has not passed, a
  \<^verbatim>\<open>generateDataToolToken\<close> call made after the session id was cleared still returns
  the old token, with no request issued and nothing refreshed.
\<close>

theorem clear_sid_keeps_token:
  assumes "reachable cfg (c, w)"
  shows "cachedSid (clearCachedSid c) = JNull \<and>
         sidExpiration (clearCachedSid c) = None \<and>
         cachedDataToolToken (clearCachedSid c) = cachedDataToolToken c \<and>
         tokenExpiration (clearCachedSid c) = tokenExpiration c \<and>
         (token_hit c (clock w) \<longrightarrow>
            generateDataToolToken cfg (clearCachedSid c, w) =
              (Inr (cachedDataToolToken c), clearCachedSid c, w))"
proof -
  have inv: "cache_inv (clearCachedSid c)"
    using reachable_inv [OF r_clearSid [OF assms]] by simp
  have same: "cachedDataToolToken (clearCachedSid c) = cachedDataToolToken c"
    "tokenExpiration (clearCachedSid c) = tokenExpiration c"
    by (simp_all add: clearCachedSid_def)
  have "token_hit (clearCachedSid c) (clock w)" if "token_hit c (clock w)"
    using that by (simp add: token_hit_def same)
  then show ?thesis
    using token_hit_returns [OF inv, of w cfg] same
    by (auto simp: clearCachedSid_def)
qed

theorem clear_sid_keeps_token_witness:
  "reachable demo_config (demo_cache_token, demo_world_token) \<and>
   token_hit demo_cache_token (clock demo_world_token) \<and>
   cachedSid (clearCachedSid demo_cache_token) = JNull \<and>
   generateDataToolToken demo_config (clearCachedSid demo_cache_token, demo_world_token) =
     (Inr (JStr ''T1''), clearCachedSid demo_cache_token, demo_world_token)"
proof -
  have hit: "token_hit demo_cache_token (clock demo_world_token)"
    by (simp add: token_hit_def demo_cache_token_def demo_world_token_def)
  have val: "cachedDataToolToken demo_cache_token = JStr ''T1''"
    by (simp add: demo_cache_token_def)
  show ?thesis
    using clear_sid_keeps_token [OF demo_token_reachable] hit val demo_token_reachable
    by simp
qed


lemma start_miss_awaits:
  assumes "credentials_set cfg" and "\<not> (truthy (cachedSid c) \<and> live (sidExpiration c) now)"
  shows "getQuoteMediaSid_start cfg c now = Awaiting (auth_request cfg)"
  using assms by (auto simp: getQuoteMediaSid_start_def credentials_set_def)

lemma cleared_sid_not_live: "\<not> (truthy (cachedSid (clearCachedSid c)) \<and> live e now)"
  by (simp add: clearCachedSid_def)

lemma getQuoteMediaSid_miss_requests:
  assumes "credentials_set cfg" and "\<not> (truthy (cachedSid c) \<and> live (sidExpiration c) (clock w))"
  shows "requests (snd (snd (getQuoteMediaSid cfg (c, w)))) = requests w @ [auth_request cfg]"
  using start_miss_awaits [OF assms]
  by (simp add: getQuoteMediaSid_def fetch_def Let_def split: prod.splits)

lemma two_concurrent_gets_requests:
  assumes "credentials_set cfg" and "\<not> (truthy (cachedSid c) \<and> live (sidExpiration c) (clock w))"
  shows "requests (snd (snd (snd (two_concurrent_gets cfg (c, w))))) =
           requests w @ [auth_request cfg, auth_request cfg]"
  using start_miss_awaits [OF assms]
  by (simp add: two_concurrent_gets_def start_call_def resume_call_def Let_def
        split: prod.splits)

lemma token_after_clear_requests:
  assumes "getQuoteMediaSid cfg (clearCachedToken c, w) = (Inr sid, c1, w1)"
  shows "requests (snd (snd (generateDataToolToken cfg (clearCachedToken c, w)))) =
           requests w1 @ [token_request cfg sid]"
proof -
  have miss: "\<not> (truthy (cachedDataToolToken (clearCachedToken c))
                \<and> live (tokenExpiration (clearCachedToken c)) (clock w))"
    by (simp add: clearCachedToken_def)
  show ?thesis
    by (simp add: generateDataToolToken_def miss assms fetch_def Let_def
          split: prod.splits fetch_outcome.splits option.splits sum.splits)
qed

text \<open>
  Claim C9 fails on the code: the module has no single-flight mechanism.  Two calls
  started from the empty cache before the first one completes each issue their own
  authentication request.
\<close>

theorem concurrent_gets_counterexample:
  "requests (snd (snd (snd (two_concurrent_gets demo_config (init_cache, demo_world))))) =
     [auth_request demo_config, auth_request demo_config]"
proof -
  have "requests demo_world = []"
    by (simp add: requests_def demo_world_def)
  moreover have "getQuoteMediaSid_start demo_config init_cache (clock demo_world) =
      Awaiting (auth_request demo_config)"
    by (simp add: getQuoteMediaSid_start_def init_cache_def env_or_def demo_config_def)
  ultimately show ?thesis
    by (simp add: two_concurrent_gets_def start_call_def resume_call_def Let_def
          split: prod.splits)
qed

text \<open>
  Claim C9 as amended.  With both credentials set in the environment: a
  \<^verbatim>\<open>getQuoteMediaSid\<close> call that runs alone after \<^verbatim>\<open>clearCachedSid\<close> issues
  exactly one authentication request; two calls started while no live session id is
  cached, the second before the first has completed, issue two authentication
  requests (each caller refreshes for itself).  After \<^verbatim>\<open>clearCachedToken\<close>, a
  \<^verbatim>\<open>generateDataToolToken\<close> call whose session-id step succeeds issues exactly one
  token request after that step.
\<close>

theorem refresh_per_caller:
  assumes "credentials_set cfg"
  shows "requests (snd (snd (getQuoteMediaSid cfg (clearCachedSid c, w)))) =
           requests w @ [auth_request cfg] \<and>
         (\<not> (truthy (cachedSid c) \<and> live (sidExpiration c) (clock w)) \<longrightarrow>
            requests (snd (snd (snd (two_concurrent_gets cfg (c, w))))) =
              requests w @ [auth_request cfg, auth_request cfg]) \<and>
         (getQuoteMediaSid cfg (clearCachedToken c, w) = (Inr sid, c1, w1) \<longrightarrow>
            requests (snd (snd (generateDataToolToken cfg (clearCachedToken c, w)))) =
              requests w1 @ [token_request cfg sid])"
  using getQuoteMediaSid_miss_requests [OF assms cleared_sid_not_live, of c w]
    two_concurrent_gets_requests [OF assms, of c w]
    token_after_clear_requests [of cfg c w sid c1 w1]
  by blast

theorem refresh_per_caller_witness:
  "credentials_set demo_config \<and>
   requests (snd (snd (getQuoteMediaSid demo_config (clearCachedSid demo_cache_token, demo_world_token)))) =
     [auth_request demo_config, token_request demo_config (JStr ''S1''), auth_request demo_config] \<and>
   \<not> (truthy (cachedSid init_cache) \<and> live (sidExpiration init_cache) (clock demo_world)) \<and>
   requests (snd (snd (snd (two_concurrent_gets demo_config (init_cache, demo_world))))) =
     [auth_request demo_config, auth_request demo_config] \<and>
   getQuoteMediaSid demo_config (clearCachedToken init_cache, demo_world) =
     (Inr (JStr ''S1''), demo_cache_sid, demo_world_sid) \<and>
   requests (snd (snd (generateDataToolToken demo_config (clearCachedToken init_cache, demo_world)))) =
     [auth_request demo_config, token_request demo_config (JStr ''S1'')]"
proof -
  have cs: "credentials_set demo_config"
    by (simp add: credentials_set_def demo_config_def env_or_def)
  have miss: "\<not> (truthy (cachedSid init_cache) \<and> live (sidExpiration init_cache) (clock demo_world))"
    by (simp add: init_cache_def)
  have same: "clearCachedToken init_cache = init_cache"
    by (simp add: clearCachedToken_def init_cache_def)
  note a = refresh_per_caller [OF cs, where c = demo_cache_token and w = demo_world_token]
  note b = refresh_per_caller [OF cs, where c = init_cache and w = demo_world
      and sid = "JStr ''S1''" and ?c1.0 = demo_cache_sid and ?w1.0 = demo_world_sid]
  show ?thesis
    using a b cs miss demo_sid_run
    by (simp add: same demo_world_token_def demo_world_def demo_world_sid_def requests_def)
qed

section \<open>Properties of the halt-feed parser\<close>


lemma process_cells_isToday:
  "snd (process_cells hs today j cells (rd, b)) =
     (b \<or> (\<exists>i < length cells. j + i < length hs \<and> hs ! (j + i) = ''Halt Date''
              \<and> trim (text_of (cells ! i)) = today))"
proof (induction cells arbitrary: j rd b)
  case Nil
  show ?case by simp
next
  case (Cons cell cells)
  have split: "(\<exists>i < length (cell # cells). P i) = (P 0 \<or> (\<exists>i < length cells. P (Suc i)))" for P
    by (auto simp: less_Suc_eq_0_disj)
  show ?case
    unfolding split
    by (simp add: Cons.IH Let_def) auto
qed

lemma process_cells_untouched:
  assumes "\<forall>i < length cells. \<not> (j + i < length hs \<and> hs ! (j + i) = k)"
  shows "fst (process_cells hs today j cells (rd, b)) k = rd k"
  using assms
proof (induction cells arbitrary: j rd b)
  case Nil
  show ?case by simp
next
  case (Cons cell cells)
  have rest: "\<forall>i < length cells. \<not> (Suc j + i < length hs \<and> hs ! (Suc j + i) = k)"
    using Cons.prems by fastforce
  have here: "\<not> (j < length hs \<and> hs ! j = k)"
    using Cons.prems by fastforce
  show ?case
    using Cons.IH [OF rest] here by (auto simp: Let_def)
qed

lemma process_cells_last:
  assumes "i < length cells" "j + i < length hs" "hs ! (j + i) = k" "k \<noteq> []"
    and "\<forall>m < length cells. i < m \<longrightarrow> \<not> (j + m < length hs \<and> hs ! (j + m) = k)"
  shows "fst (process_cells hs today j cells (rd, b)) k = Some (stored_value (j + i) (cells ! i))"
  using assms
proof (induction cells arbitrary: i j rd b)
  case Nil
  then show ?case by simp
next
  case (Cons cell cells)
  show ?case
  proof (cases i)
    case 0
    have rest: "\<forall>m < length cells. \<not> (Suc j + m < length hs \<and> hs ! (Suc j + m) = k)"
      using Cons.prems(5) 0 by fastforce
    show ?thesis
      using Cons.prems(2,3,4) 0 process_cells_untouched [OF rest]
      by (simp add: Let_def)
  next
    case (Suc n)
    have later: "\<forall>m < length cells. n < m \<longrightarrow> \<not> (Suc j + m < length hs \<and> hs ! (Suc j + m) = k)"
      using Cons.prems(5) Suc by fastforce
    have "fst (process_cells hs today (Suc j) cells (rd', b')) k
            = Some (stored_value (Suc j + n) (cells ! n))" for rd' b'
      using Cons.IH [of n "Suc j"] Cons.prems(1,2,3,4) Suc later by simp
    then show ?thesis
      using Suc by (simp add: Let_def)
  qed
qed

lemma issue_symbol_kept:
  "(fst (process_cells hs today 0 cells (Map.empty, False)) ''Issue Symbol'' \<noteq> None \<and>
    fst (process_cells hs today 0 cells (Map.empty, False)) ''Issue Symbol'' \<noteq> Some [])
   = has_issue_symbol hs cells"
proof (cases "\<exists>i < length cells. i < length hs \<and> hs ! i = ''Issue Symbol''")
  case False
  then have "fst (process_cells hs today 0 cells (Map.empty, False)) ''Issue Symbol'' = None"
    using process_cells_untouched [of cells 0 hs "''Issue Symbol''" today Map.empty False] by simp
  moreover have "\<not> has_issue_symbol hs cells"
    using False by (auto simp: has_issue_symbol_def last_under_def)
  ultimately show ?thesis by simp
next
  case True
  define P where "P i = (i < length cells \<and> i < length hs \<and> hs ! i = ''Issue Symbol'')" for i
  have ex: "\<exists>i. P i" using True by (auto simp: P_def)
  have bound: "\<forall>i. P i \<longrightarrow> i \<le> length cells" by (simp add: P_def)
  define m where "m = (GREATEST i. P i)"
  have Pm: "P m"
    unfolding m_def using ex bound GreatestI_ex_nat by blast
  have max: "P i \<Longrightarrow> i \<le> m" for i
    unfolding m_def using bound Greatest_le_nat by blast
  have last: "last_under hs ''Issue Symbol'' cells m"
    using Pm max by (fastforce simp: last_under_def P_def)
  have uniq: "last_under hs ''Issue Symbol'' cells i \<Longrightarrow> i = m" for i
    using Pm max [of i] by (fastforce simp: last_under_def P_def)
  have val: "fst (process_cells hs today 0 cells (Map.empty, False)) ''Issue Symbol''
               = Some (stored_value m (cells ! m))"
    using process_cells_last [of m cells 0 hs "''Issue Symbol''" today Map.empty False] last
    by (simp add: last_under_def)
  have "has_issue_symbol hs cells = (stored_value m (cells ! m) \<noteq> [])"
  proof
    assume "has_issue_symbol hs cells"
    then obtain i where "last_under hs ''Issue Symbol'' cells i" "stored_value i (cells ! i) \<noteq> []"
      unfolding has_issue_symbol_def by blast
    then show "stored_value m (cells ! m) \<noteq> []"
      using uniq by blast
  next
    assume "stored_value m (cells ! m) \<noteq> []"
    moreover have "m < length cells" using Pm by (simp add: P_def)
    ultimately show "has_issue_symbol hs cells"
      unfolding has_issue_symbol_def using last by blast
  qed
  then show ?thesis
    by (simp add: val)
qed

lemma process_rows_filter:
  "process_rows hs today rows data =
     data @ map (record_of_row hs today) (filter (retained hs today) rows)"
proof (induction rows arbitrary: data)
  case Nil
  show ?case by simp
next
  case (Cons row rows)
  let ?cells = "find_tag ''td'' row"
  obtain rd b where pc: "process_cells hs today 0 ?cells (Map.empty, False) = (rd, b)"
    by (cases "process_cells hs today 0 ?cells (Map.empty, False)")
  have b: "b = halt_date_is hs today ?cells"
    using process_cells_isToday [of hs today 0 ?cells Map.empty False] pc
    by (simp add: halt_date_is_def)
  have sym: "(rd ''Issue Symbol'' \<noteq> None \<and> rd ''Issue Symbol'' \<noteq> Some []) = has_issue_symbol hs ?cells"
    using issue_symbol_kept [of hs today ?cells] pc by simp
  show ?case
  proof (cases "?cells = []")
    case True
    then have "\<not> retained hs today row"
      by (simp add: retained_def halt_date_is_def)
    then show ?thesis using True Cons.IH by simp
  next
    case False
    show ?thesis
      using False pc b sym Cons.IH
      by (simp add: retained_def record_of_row_def Let_def)
  qed
qed


lemma string_of_nat_digit: "n < 10 \<Longrightarrow> string_of_nat n = [digit_char n]"
  by (simp add: string_of_nat.simps)

lemma string_of_nat_two: "10 \<le> n \<Longrightarrow> n < 100 \<Longrightarrow>
    string_of_nat n = [digit_char (n div 10), digit_char (n mod 10)]"
  by (subst string_of_nat.simps) (simp add: string_of_nat_digit)

lemma string_of_nat_three: "100 \<le> n \<Longrightarrow> n < 1000 \<Longrightarrow>
    string_of_nat n = [digit_char (n div 100), digit_char (n div 10 mod 10), digit_char (n mod 10)]"
  by (subst string_of_nat.simps) (simp add: string_of_nat_two div_mult2_eq [symmetric])

lemma string_of_nat_four: "1000 \<le> n \<Longrightarrow> n < 10000 \<Longrightarrow>
    string_of_nat n = [digit_char (n div 1000), digit_char (n div 100 mod 10),
                       digit_char (n div 10 mod 10), digit_char (n mod 10)]"
  by (subst string_of_nat.simps) (simp add: string_of_nat_three div_mult2_eq [symmetric])

lemma padStart2_two_digits: "n < 100 \<Longrightarrow>
    padStart2 (string_of_nat n) = [digit_char (n div 10), digit_char (n mod 10)]"
proof (cases "n < 10")
  case True
  then show ?thesis
    by (simp add: string_of_nat_digit padStart2_def digit_char_def)
next
  case False
  assume "n < 100"
  then show ?thesis
    using False by (simp add: string_of_nat_two padStart2_def)
qed

lemma todayFormatted_shape:
  assumes "getMonth today < 12" "getDate today \<le> 31"
    "1000 \<le> getFullYear today" "getFullYear today \<le> 9999"
  shows "todayFormatted today =
     [digit_char ((getMonth today + 1) div 10), digit_char ((getMonth today + 1) mod 10), CHR ''/'',
      digit_char (getDate today div 10), digit_char (getDate today mod 10), CHR ''/'',
      digit_char (getFullYear today div 1000), digit_char (getFullYear today div 100 mod 10),
      digit_char (getFullYear today div 10 mod 10), digit_char (getFullYear today mod 10)]"
  using assms
  by (simp add: todayFormatted_def padStart2_two_digits string_of_nat_four)

lemma parseNasdaqDocument_filter:
  "parseNasdaqDocument today doc =
     (case findTableElement doc of
        None \<Rightarrow> []
      | Some table \<Rightarrow>
          (case find_tag ''tr'' table of
             [] \<Rightarrow> []
           | first # rest \<Rightarrow>
               map (record_of_row (header_names first) (todayFormatted today))
                 (filter (retained (header_names first) (todayFormatted today)) rest)))"
  by (simp add: parseNasdaqDocument_def process_rows_filter header_names_def Let_def
        split: option.splits list.splits)


lemma retained_code:
  "retained hs today row =
     (case process_cells hs today 0 (find_tag ''td'' row) (Map.empty, False) of
        (rd, b) \<Rightarrow> b \<and> rd ''Issue Symbol'' \<noteq> None \<and> rd ''Issue Symbol'' \<noteq> Some [])"
proof -
  let ?cells = "find_tag ''td'' row"
  obtain rd b where pc: "process_cells hs today 0 ?cells (Map.empty, False) = (rd, b)"
    by (cases "process_cells hs today 0 ?cells (Map.empty, False)")
  have "b = halt_date_is hs today ?cells"
    using process_cells_isToday [of hs today 0 ?cells Map.empty False] pc
    by (simp add: halt_date_is_def)
  moreover have "(rd ''Issue Symbol'' \<noteq> None \<and> rd ''Issue Symbol'' \<noteq> Some [])
      = has_issue_symbol hs ?cells"
    using issue_symbol_kept [of hs today ?cells] pc by simp
  ultimately show ?thesis
    by (simp add: retained_def pc)
qed

lemma demo_table_found: "findTableElement demo_doc = Some demo_table"
  by (simp add: findTableElement_def select_tag_def demo_doc_def demo_table_def
        demo_header_row_def demo_row_today_def demo_row_yesterday_def demo_reason_cell_def)

lemma demo_table_rows:
  "find_tag ''tr'' demo_table = [demo_header_row, demo_row_today, demo_row_yesterday]"
  by (simp add: find_tag_def demo_table_def
        demo_header_row_def demo_row_today_def demo_row_yesterday_def demo_reason_cell_def)

lemma demo_header_names:
  "header_names demo_header_row =
     [''Halt Date'', ''Halt Time'', ''Issue Symbol'', ''Issue Name'', ''Market'',
      ''Reason Codes'', ''Pause Threshold Price'', ''Resumption Date'',
      ''Resumption Quote Time'', ''Resumption Trade Time'']"
  by (simp add: header_names_def find_tag_def demo_header_row_def trim_def is_space_def)

lemma demo_row_today_retained:
  "retained (header_names demo_header_row) ''11/03/2026'' demo_row_today"
  unfolding retained_code demo_header_names
  by (simp add: find_tag_def demo_row_today_def demo_reason_cell_def stored_value_def
        reasons_of_def text_of_all_def trim_def is_space_def Let_def)

lemma demo_row_yesterday_dropped:
  "\<not> retained (header_names demo_header_row) ''11/03/2026'' demo_row_yesterday"
  unfolding retained_code demo_header_names
  by (simp add: find_tag_def demo_row_yesterday_def stored_value_def
        reasons_of_def text_of_all_def trim_def is_space_def Let_def)

lemma demo_row_today_record:
  "record_of_row (header_names demo_header_row) ''11/03/2026'' demo_row_today = demo_halt"
  unfolding record_of_row_def demo_header_names
  by (simp add: find_tag_def demo_row_today_def demo_reason_cell_def stored_value_def
        reasons_of_def text_of_all_def trim_def is_space_def Let_def halt_of_row_def or_na_def
        demo_halt_def)

text \<open>
  Claim C2.  On every loaded document the parser returns, in row order, the records
  of exactly those rows after the header row that have a \<^verbatim>\<open>Halt Date\<close> cell whose
  (trimmed) text is equal, as a string, to today's date and whose
  \<^verbatim>\<open>Issue Symbol\<close> is not empty; every other row is dropped.  Without a table, or
  without rows, the result is the empty list; the result is always a list, never an
  error.  Today's date is the two-digit month, the two-digit day and the year,
  separated by slashes.
\<close>

theorem halts_only_today:
  "parseNasdaqDocument today doc =
     (case findTableElement doc of
        None \<Rightarrow> []
      | Some table \<Rightarrow>
          (case find_tag ''tr'' table of
             [] \<Rightarrow> []
           | first # rest \<Rightarrow>
               map (record_of_row (header_names first) (todayFormatted today))
                 (filter (retained (header_names first) (todayFormatted today)) rest))) \<and>
   (getMonth today < 12 \<and> getDate today \<le> 31 \<and>
    1000 \<le> getFullYear today \<and> getFullYear today \<le> 9999 \<longrightarrow>
      todayFormatted today =
        [digit_char ((getMonth today + 1) div 10), digit_char ((getMonth today + 1) mod 10),
         CHR ''/'',
         digit_char (getDate today div 10), digit_char (getDate today mod 10),
         CHR ''/'',
         digit_char (getFullYear today div 1000), digit_char (getFullYear today div 100 mod 10),
         digit_char (getFullYear today div 10 mod 10), digit_char (getFullYear today mod 10)])"
  using parseNasdaqDocument_filter [of today doc] todayFormatted_shape [of today]
  by blast

theorem halts_only_today_witness:
  "findTableElement demo_doc = Some demo_table \<and>
   find_tag ''tr'' demo_table = [demo_header_row, demo_row_today, demo_row_yesterday] \<and>
   retained (header_names demo_header_row) ''11/03/2026'' demo_row_today \<and>
   \<not> retained (header_names demo_header_row) ''11/03/2026'' demo_row_yesterday \<and>
   getMonth demo_today < 12 \<and> getDate demo_today \<le> 31 \<and>
   1000 \<le> getFullYear demo_today \<and> getFullYear demo_today \<le> 9999 \<and>
   todayFormatted demo_today = ''11/03/2026'' \<and>
   parseNasdaqDocument demo_today demo_doc = [demo_halt]"
proof -
  have d: "getMonth demo_today < 12" "getDate demo_today \<le> 31"
    "1000 \<le> getFullYear demo_today" "getFullYear demo_today \<le> 9999"
    by (simp_all add: demo_today_def)
  have fmt: "todayFormatted demo_today = ''11/03/2026''"
    using halts_only_today [of demo_today demo_doc] d
    by (simp add: demo_today_def digit_char_def)
  have "parseNasdaqDocument demo_today demo_doc = [demo_halt]"
    using halts_only_today [of demo_today demo_doc]
    by (simp add: demo_table_found demo_table_rows fmt demo_row_today_retained
          demo_row_yesterday_dropped demo_row_today_record)
  then show ?thesis
    using d fmt demo_table_found demo_table_rows demo_row_today_retained
      demo_row_yesterday_dropped
    by simp
qed


lemma descendants_trans:
  "d \<in> set (descendants n) \<Longrightarrow> x \<in> set (descendants d) \<Longrightarrow> x \<in> set (descendants n)"
proof (induction n)
  case (Text s)
  then show ?case by simp
next
  case (Element t cs)
  from Element.prems(1) obtain c where c: "c \<in> set cs" "d = c \<or> d \<in> set (descendants c)"
    by auto
  then have "x \<in> set (descendants c)"
    using Element.IH [of c] Element.prems(2) by blast
  then show ?case
    using c(1) by auto
qed

lemma no_anchor_below:
  assumes "find_tag ''a'' cell = []" and "d \<in> set (find_tag ''div'' cell)"
  shows "find_tag ''a'' d = []"
proof (rule ccontr)
  assume "find_tag ''a'' d \<noteq> []"
  then obtain x where x: "x \<in> set (descendants d)" "is_tag ''a'' x"
    by (auto simp: find_tag_def filter_empty_conv)
  have "d \<in> set (descendants cell)"
    using assms(2) by (simp add: find_tag_def)
  then have "x \<in> set (descendants cell)"
    using x(1) descendants_trans by blast
  then have "x \<in> set (find_tag ''a'' cell)"
    using x(2) by (simp add: find_tag_def)
  then show False
    using assms(1) by simp
qed

lemma no_anchor_no_reasons:
  assumes "find_tag ''a'' cell = []"
  shows "reasons_of cell = []"
  using no_anchor_below [OF assms]
  by (simp add: reasons_of_def Let_def)

lemma stored_value_no_anchor:
  "find_tag ''a'' cell = [] \<Longrightarrow> stored_value j cell = trim (text_of cell)"
  by (simp add: stored_value_def no_anchor_no_reasons Let_def)

lemma divs_of_anchor_cell:
  "find_tag ''div'' (Element ''td'' (map (\<lambda>t. Element ''div'' [Element ''a'' [Text t]]) ts))
   = map (\<lambda>t. Element ''div'' [Element ''a'' [Text t]]) ts"
  by (induction ts) (simp_all add: find_tag_def)

lemma reasons_of_anchor_cell:
  assumes "\<forall>t \<in> set ts. trim t \<noteq> []"
  shows "reasons_of (Element ''td'' (map (\<lambda>t. Element ''div'' [Element ''a'' [Text t]]) ts))
           = map trim ts"
proof -
  have h: "concat (map (\<lambda>d. let a = find_tag ''a'' d in
                        if a \<noteq> [] \<and> trim (text_of_all a) \<noteq> [] then [trim (text_of_all a)] else [])
          (map (\<lambda>t. Element ''div'' [Element ''a'' [Text t]]) ts)) = map trim ts"
    using assms by (induction ts) (simp_all add: find_tag_def text_of_all_def)
  show ?thesis
    unfolding reasons_of_def divs_of_anchor_cell by (rule h)
qed

lemma stored_value_anchor_cell:
  assumes "ts \<noteq> []" and "\<forall>t \<in> set ts. trim t \<noteq> []"
  shows "stored_value 5 (Element ''td'' (map (\<lambda>t. Element ''div'' [Element ''a'' [Text t]]) ts))
           = join '', '' (map trim ts)"
  using assms by (simp add: stored_value_def reasons_of_anchor_cell Let_def)

lemma record_reasonCodes:
  assumes "last_under headers ''Reason Codes'' (find_tag ''td'' row) i"
  shows "reasonCodes (record_of_row headers today row)
           = or_na (Some (stored_value i (find_tag ''td'' row ! i)))"
  using process_cells_last [of i "find_tag ''td'' row" 0 headers "''Reason Codes''" today
      Map.empty False] assms
  by (simp add: record_of_row_def halt_of_row_def last_under_def)

text \<open>
  Claim C7 fails on the code in two ways.  The special handling is tied to the cell
  at index 5, not to the header name: with \<^verbatim>\<open>Reason Codes\<close> as the third column the
  anchors are not separated.  And the anchors are taken per \<^verbatim>\<open>div\<close>: two anchors
  in one \<^verbatim>\<open>div\<close> come out as one run of text.
\<close>

theorem reason_codes_counterexample:
  "map reasonCodes (parseNasdaqDocument demo_today short_doc) = [''Regulatory ConcernOther''] \<and>
   map reasonCodes (parseNasdaqDocument demo_today two_anchor_doc) = [''Regulatory ConcernOther'']"
proof -
  have fmt: "todayFormatted demo_today = ''11/03/2026''"
    by (simp add: todayFormatted_def demo_today_def padStart2_def string_of_nat.simps digit_char_def)
  have a: "map reasonCodes (parseNasdaqDocument demo_today short_doc) = [''Regulatory ConcernOther'']"
    unfolding parseNasdaqDocument_def fmt
    by (simp add: findTableElement_def select_tag_def find_tag_def short_doc_def
        demo_reason_cell_def stored_value_def halt_of_row_def or_na_def trim_def is_space_def
        Let_def)
  have b: "map reasonCodes (parseNasdaqDocument demo_today two_anchor_doc) = [''Regulatory ConcernOther'']"
    unfolding parseNasdaqDocument_def fmt
    by (simp add: findTableElement_def select_tag_def find_tag_def two_anchor_doc_def
        demo_header_row_def stored_value_def reasons_of_def text_of_all_def
        halt_of_row_def or_na_def trim_def is_space_def Let_def)
  show ?thesis using a b by simp
qed

lemma reasons_of_div_reasons: "reasons_of cell = div_reasons cell"
proof -
  have empty: "anchor_text d = []" if "find_tag ''a'' d = []" for d
    using that by (simp add: anchor_text_def find_tag_def trim_def)
  have "concat (map (\<lambda>d. let a = find_tag ''a'' d in
                        if a \<noteq> [] \<and> trim (text_of_all a) \<noteq> [] then [trim (text_of_all a)]
                        else []) ds)
        = filter (\<lambda>reason. reason \<noteq> []) (map anchor_text ds)" for ds
  proof (induction ds)
    case Nil
    show ?case by simp
  next
    case (Cons d ds)
    show ?case
    proof (cases "find_tag ''a'' d = []")
      case True
      then show ?thesis
        using Cons.IH empty [OF True] by simp
    next
      case False
      have "anchor_text d = trim (text_of_all (find_tag ''a'' d))"
        by (simp add: anchor_text_def text_of_all_def find_tag_def)
      then show ?thesis
        using Cons.IH False by (simp add: Let_def)
    qed
  qed
  then show ?thesis
    by (simp add: reasons_of_def div_reasons_def find_tag_def)
qed

lemma stored_value_5:
  "stored_value 5 cell =
     (if div_reasons cell = [] then trim (text_of cell) else join '', '' (div_reasons cell))"
  by (simp add: stored_value_def reasons_of_div_reasons Let_def)

text \<open>
  Claim C7 as amended.  The record's \<^verbatim>\<open>reasonCodes\<close> is the value stored for the
  last cell under a header named \<^verbatim>\<open>Reason Codes\<close> (or \<^verbatim>\<open>N/A\<close> when that is
  empty).  For every cell at index 5: each \<^verbatim>\<open>div\<close> below the cell, in document
  order, gives the texts of all anchors below it, put together and trimmed; when at
  least one of these is not empty, the value is the non-empty ones joined with a comma
  and a space, and otherwise it is the trimmed text of the cell.  So a cell of
  \<^verbatim>\<open>div\<close> elements holding one anchor each gives the trimmed anchor texts joined,
  and a cell without anchors gives its trimmed text.  Every cell at another index
  stores its trimmed text.
\<close>

theorem reason_codes_at_index_5:
  "(last_under headers ''Reason Codes'' (find_tag ''td'' row) i \<longrightarrow>
      reasonCodes (record_of_row headers today row)
        = or_na (Some (stored_value i (find_tag ''td'' row ! i)))) \<and>
   stored_value 5 any_cell =
     (if div_reasons any_cell = [] then trim (text_of any_cell)
      else join '', '' (div_reasons any_cell)) \<and>
   (ts \<noteq> [] \<and> (\<forall>t \<in> set ts. trim t \<noteq> []) \<longrightarrow>
      stored_value 5 (Element ''td'' (map (\<lambda>t. Element ''div'' [Element ''a'' [Text t]]) ts))
        = join '', '' (map trim ts)) \<and>
   (find_tag ''a'' cell = [] \<longrightarrow> stored_value 5 cell = trim (text_of cell)) \<and>
   (j \<noteq> 5 \<longrightarrow> stored_value j cell' = trim (text_of cell'))"
  using record_reasonCodes [of headers row i today] stored_value_anchor_cell [of ts]
    stored_value_no_anchor [of cell 5] stored_value_5 [of any_cell]
  by (auto simp: stored_value_def)

theorem reason_codes_at_index_5_witness:
  "header_names demo_header_row ! 5 = ''Reason Codes'' \<and>
   find_tag ''td'' demo_row_today ! 5 = demo_reason_cell \<and>
   map trim [''Regulatory Concern'', ''Other''] = [''Regulatory Concern'', ''Other''] \<and>
   demo_reason_cell = Element ''td'' (map (\<lambda>t. Element ''div'' [Element ''a'' [Text t]])
                        [''Regulatory Concern'', ''Other'']) \<and>
   reasonCodes (record_of_row (header_names demo_header_row) ''11/03/2026'' demo_row_today)
     = ''Regulatory Concern, Other'' \<and>
   find_tag ''a'' (Element ''td'' [Text '' T1 '']) = [] \<and>
   stored_value 5 (Element ''td'' [Text '' T1 '']) = ''T1'' \<and>
   (2::nat) \<noteq> 5 \<and>
   stored_value 2 demo_reason_cell = ''Regulatory ConcernOther'' \<and>
   div_reasons two_anchor_cell = [''Regulatory ConcernOther''] \<and>
   stored_value 5 two_anchor_cell = ''Regulatory ConcernOther'' \<and>
   div_reasons blank_anchor_cell = [] \<and>
   stored_value 5 blank_anchor_cell = ''raw'' \<and>
   div_reasons nested_div_cell = [''X'', ''X''] \<and>
   stored_value 5 nested_div_cell = ''X, X''"
proof -
  have cells: "find_tag ''td'' demo_row_today ! 5 = demo_reason_cell"
    by (simp add: find_tag_def demo_row_today_def demo_reason_cell_def)
  have len: "length (find_tag ''td'' demo_row_today) = 10"
    by (simp add: find_tag_def demo_row_today_def demo_reason_cell_def)
  have lu: "last_under (header_names demo_header_row) ''Reason Codes''
              (find_tag ''td'' demo_row_today) 5"
    unfolding last_under_def demo_header_names len
    by (simp add: nth_Cons' less_Suc_eq)
  have shape: "demo_reason_cell = Element ''td''
      (map (\<lambda>t. Element ''div'' [Element ''a'' [Text t]]) [''Regulatory Concern'', ''Other''])"
    by (simp add: demo_reason_cell_def)
  have nonblank: "\<forall>t \<in> set [''Regulatory Concern'', ''Other'']. trim t \<noteq> []"
    by (simp add: trim_def is_space_def)
  have tr: "map trim [''Regulatory Concern'', ''Other''] = [''Regulatory Concern'', ''Other'']"
    "trim (text_of (Element ''td'' [Text '' T1 ''])) = ''T1''"
    "trim (text_of demo_reason_cell) = ''Regulatory ConcernOther''"
    by (simp_all add: trim_def is_space_def demo_reason_cell_def)
  have noa: "find_tag ''a'' (Element ''td'' [Text '' T1 '']) = []"
    by (simp add: find_tag_def)
  have dr: "div_reasons two_anchor_cell = [''Regulatory ConcernOther'']"
    "div_reasons blank_anchor_cell = []"
    "div_reasons nested_div_cell = [''X'', ''X'']"
    by (simp_all add: div_reasons_def anchor_text_def two_anchor_cell_def blank_anchor_cell_def
          nested_div_cell_def trim_def is_space_def)
  have raw: "trim (text_of blank_anchor_cell) = ''raw''"
    by (simp add: blank_anchor_cell_def trim_def is_space_def)
  note t = reason_codes_at_index_5 [where headers = "header_names demo_header_row"
      and row = demo_row_today and i = 5 and today = "''11/03/2026''"
      and ts = "[''Regulatory Concern'', ''Other'']"
      and cell = "Element ''td'' [Text '' T1 '']" and j = 2 and cell' = demo_reason_cell
      and any_cell = two_anchor_cell]
  have two: "stored_value 5 two_anchor_cell = ''Regulatory ConcernOther''"
    using reason_codes_at_index_5 [where any_cell = two_anchor_cell] by (simp add: dr)
  have blank: "stored_value 5 blank_anchor_cell = ''raw''"
    using reason_codes_at_index_5 [where any_cell = blank_anchor_cell] by (simp add: dr raw)
  have nested: "stored_value 5 nested_div_cell = ''X, X''"
    using reason_codes_at_index_5 [where any_cell = nested_div_cell] by (simp add: dr)
  have first: "header_names demo_header_row ! 5 = ''Reason Codes'' \<and>
     find_tag ''td'' demo_row_today ! 5 = demo_reason_cell \<and>
     map trim [''Regulatory Concern'', ''Other''] = [''Regulatory Concern'', ''Other''] \<and>
     demo_reason_cell = Element ''td'' (map (\<lambda>t. Element ''div'' [Element ''a'' [Text t]])
                          [''Regulatory Concern'', ''Other'']) \<and>
     reasonCodes (record_of_row (header_names demo_header_row) ''11/03/2026'' demo_row_today)
       = ''Regulatory Concern, Other'' \<and>
     find_tag ''a'' (Element ''td'' [Text '' T1 '']) = [] \<and>
     stored_value 5 (Element ''td'' [Text '' T1 '']) = ''T1'' \<and>
     (2::nat) \<noteq> 5 \<and>
     stored_value 2 demo_reason_cell = ''Regulatory ConcernOther''"
    using t lu cells shape [symmetric] nonblank noa tr
    by (simp add: or_na_def demo_header_names)
  show ?thesis
    using first two blank nested dr by simp
qed

section \<open>Properties of the retry loops\<close>


lemma world_eq: "(w :: world)\<lparr>clock := c, events := es\<rparr> = \<lparr>clock = c, events = es\<rparr>"
  by (cases w) simp

lemma world_eq2: "(w :: world)\<lparr>events := es, clock := c\<rparr> = \<lparr>clock = c, events = es\<rparr>"
  by (cases w) simp

lemma withRetry_loop_done:
  assumes "maxRetries < attempt"
  shows "withRetry_loop fn name maxRetries timeoutMs attempt (Some e) w = (Inl e, w)"
  using assms by (subst withRetry_loop.simps) simp

lemma withRetry_step:
  assumes "attempt \<le> maxRetries" and "snd (race_timeout (fn (clock w)) timeoutMs) = Inl e"
    and "next = attempt + 1"
    and "w' = (let w1 = \<lparr>clock = clock w + fst (race_timeout (fn (clock w)) timeoutMs),
                          events = events w @ [Called attempt]\<rparr>
              in if attempt < maxRetries then sleep (attempt * 1000) w1 else w1)"
  shows "withRetry_loop fn name maxRetries timeoutMs attempt lastError w =
           withRetry_loop fn name maxRetries timeoutMs next (Some e) w'"
  using assms
  by (subst withRetry_loop.simps, cases "race_timeout (fn (clock w)) timeoutMs")
     (simp add: Let_def world_eq)

lemma withRetry_exhausted:
  assumes fails: "\<forall>t. \<exists>e. snd (race_timeout (fn t) timeoutMs) = Inl e"
  shows "withRetry fn name ticker 3 timeoutMs w =
     (let t1 = clock w;
          t2 = t1 + fst (race_timeout (fn t1) timeoutMs) + 1000;
          t3 = t2 + fst (race_timeout (fn t2) timeoutMs) + 2000
      in (snd (race_timeout (fn t3) timeoutMs),
          \<lparr>clock = t3 + fst (race_timeout (fn t3) timeoutMs),
           events = events w @ [Called 1, Slept 1000, Called 2, Slept 2000, Called 3]\<rparr>))"
proof -
  define t1 where "t1 = clock w"
  define t2 where "t2 = t1 + fst (race_timeout (fn t1) timeoutMs) + 1000"
  define t3 where "t3 = t2 + fst (race_timeout (fn t2) timeoutMs) + 2000"
  obtain e1 where e1: "snd (race_timeout (fn t1) timeoutMs) = Inl e1" using fails by blast
  obtain e2 where e2: "snd (race_timeout (fn t2) timeoutMs) = Inl e2" using fails by blast
  obtain e3 where e3: "snd (race_timeout (fn t3) timeoutMs) = Inl e3" using fails by blast
  define w2 where "w2 = \<lparr>clock = t2, events = events w @ [Called 1, Slept 1000]\<rparr>"
  define w3 where "w3 = \<lparr>clock = t3, events = events w @ [Called 1, Slept 1000, Called 2, Slept 2000]\<rparr>"
  define w4 where "w4 = \<lparr>clock = t3 + fst (race_timeout (fn t3) timeoutMs),
      events = events w @ [Called 1, Slept 1000, Called 2, Slept 2000, Called 3]\<rparr>"
  have c: "clock w2 = t2" "clock w3 = t3" "events w2 = events w @ [Called 1, Slept 1000]"
    "events w3 = events w @ [Called 1, Slept 1000, Called 2, Slept 2000]"
    by (simp_all add: w2_def w3_def)
  have s1: "withRetry_loop fn name 3 timeoutMs 1 None w = withRetry_loop fn name 3 timeoutMs 2 (Some e1) w2"
    by (rule withRetry_step) (simp_all add: e1 [unfolded t1_def] t1_def t2_def w2_def sleep_def)
  have s2: "withRetry_loop fn name 3 timeoutMs 2 (Some e1) w2 = withRetry_loop fn name 3 timeoutMs 3 (Some e2) w3"
    by (rule withRetry_step) (simp_all add: c e2 t3_def w3_def sleep_def)
  have s3: "withRetry_loop fn name 3 timeoutMs 3 (Some e2) w3 = withRetry_loop fn name 3 timeoutMs 4 (Some e3) w4"
    by (rule withRetry_step) (simp_all add: c e3 w4_def)
  have s4: "withRetry_loop fn name 3 timeoutMs 4 (Some e3) w4 = (Inl e3, w4)"
    by (rule withRetry_loop_done) simp
  have "withRetry fn name ticker 3 timeoutMs w = (snd (race_timeout (fn t3) timeoutMs), w4)"
    unfolding withRetry_def s1 s2 s3 s4 e3 ..
  then show ?thesis
    unfolding w4_def t3_def t2_def t1_def Let_def .
qed

lemma halts_step:
  assumes le: "attempt \<le> 3" and fails: "snd (halts_attempt cfg (clock w)) = Inl e"
    and nxt: "next = attempt + 1"
    and w': "w' = (let w1 = \<lparr>clock = clock w + fst (halts_attempt cfg (clock w)),
                          events = events w @ [Sent halts_request]\<rparr>
              in if attempt < 3 then sleep (attempt * 1000) w1 else w1)"
  shows "fetchNasdaqHalts_loop cfg attempt lastError w =
           fetchNasdaqHalts_loop cfg next (Some e) w'"
proof -
  define w1 where "w1 = \<lparr>clock = clock w + fst (halts_attempt cfg (clock w)),
                          events = events w @ [Sent halts_request]\<rparr>"
  define out where "out = fst (fetch_with_timeout (h_net cfg) 8000 halts_request w)"
  have f: "fetch_with_timeout (h_net cfg) 8000 halts_request w = (out, w1)"
    by (simp add: out_def w1_def fetch_with_timeout_def halts_attempt_def Let_def issue_def
          world_eq2)
  have c: "clock w1 = clock w + fst (halts_attempt cfg (clock w))"
    by (simp add: w1_def)
  have r: "halts_of_outcome cfg (clock w1) out = Inl e"
    using fails unfolding c
    by (simp add: out_def fetch_with_timeout_def halts_attempt_def Let_def split: if_splits)
  have "fetchNasdaqHalts_loop cfg attempt lastError w =
          fetchNasdaqHalts_loop cfg (attempt + 1) (Some e)
            (if attempt < 3 then sleep (attempt * 1000) w1 else w1)"
    using le by (subst fetchNasdaqHalts_loop.simps) (simp add: f r maxRetries_halts_def)
  then show ?thesis
    by (simp add: nxt w' w1_def Let_def)
qed

lemma halts_loop_done:
  assumes "3 < attempt"
  shows "fetchNasdaqHalts_loop cfg attempt lastError w = ([], w)"
  using assms by (subst fetchNasdaqHalts_loop.simps) (simp add: maxRetries_halts_def)

lemma fetchNasdaqHalts_exhausted:
  assumes fails: "\<forall>t. \<exists>e. snd (halts_attempt cfg t) = Inl e"
  shows "fetchNasdaqHalts cfg w =
     (let t1 = clock w;
          t2 = t1 + fst (halts_attempt cfg t1) + 1000;
          t3 = t2 + fst (halts_attempt cfg t2) + 2000
      in ([],
          \<lparr>clock = t3 + fst (halts_attempt cfg t3),
           events = events w @ [Sent halts_request, Slept 1000, Sent halts_request, Slept 2000,
                                Sent halts_request]\<rparr>))"
proof -
  define t1 where "t1 = clock w"
  define t2 where "t2 = t1 + fst (halts_attempt cfg t1) + 1000"
  define t3 where "t3 = t2 + fst (halts_attempt cfg t2) + 2000"
  obtain e1 where e1: "snd (halts_attempt cfg t1) = Inl e1" using fails by blast
  obtain e2 where e2: "snd (halts_attempt cfg t2) = Inl e2" using fails by blast
  obtain e3 where e3: "snd (halts_attempt cfg t3) = Inl e3" using fails by blast
  define w2 where "w2 = \<lparr>clock = t2, events = events w @ [Sent halts_request, Slept 1000]\<rparr>"
  define w3 where "w3 = \<lparr>clock = t3,
      events = events w @ [Sent halts_request, Slept 1000, Sent halts_request, Slept 2000]\<rparr>"
  define w4 where "w4 = \<lparr>clock = t3 + fst (halts_attempt cfg t3),
      events = events w @ [Sent halts_request, Slept 1000, Sent halts_request, Slept 2000,
                           Sent halts_request]\<rparr>"
  have c: "clock w2 = t2" "clock w3 = t3"
    "events w2 = events w @ [Sent halts_request, Slept 1000]"
    "events w3 = events w @ [Sent halts_request, Slept 1000, Sent halts_request, Slept 2000]"
    by (simp_all add: w2_def w3_def)
  have s1: "fetchNasdaqHalts_loop cfg 1 None w = fetchNasdaqHalts_loop cfg 2 (Some e1) w2"
    by (rule halts_step) (simp_all add: e1 [unfolded t1_def] t1_def t2_def w2_def sleep_def)
  have s2: "fetchNasdaqHalts_loop cfg 2 (Some e1) w2 = fetchNasdaqHalts_loop cfg 3 (Some e2) w3"
    by (rule halts_step) (simp_all add: c e2 t3_def w3_def sleep_def)
  have s3: "fetchNasdaqHalts_loop cfg 3 (Some e2) w3 = fetchNasdaqHalts_loop cfg 4 (Some e3) w4"
    by (rule halts_step) (simp_all add: c e3 w4_def)
  have s4: "fetchNasdaqHalts_loop cfg 4 (Some e3) w4 = ([], w4)"
    by (rule halts_loop_done) simp
  have "fetchNasdaqHalts cfg w = ([], w4)"
    unfolding fetchNasdaqHalts_def s1 s2 s3 s4 ..
  then show ?thesis
    unfolding w4_def t3_def t2_def t1_def Let_def .
qed


lemma timeouts_fail:
  assumes "\<forall>t. timeoutMs \<le> duration (fn t)"
  shows "race_timeout (fn t) timeoutMs = (timeoutMs, Inl (Error ''Request timeout''))"
  using assms by (simp add: race_timeout_def not_less [symmetric])

lemma slow_action_race:
  "race_timeout (slow_action t) 10000 = (10000, Inl (Error ''Request timeout''))"
  by (simp add: race_timeout_def slow_action_def)

lemma slow_feed_attempt:
  "halts_attempt slow_feed t = (8000, Inl (AbortError ''This operation was aborted''))"
  by (simp add: halts_attempt_def slow_feed_def halts_of_outcome_def)

text \<open>
  Claim C4 fails on the code in its last part.  With an action that never settles in
  time, \<^verbatim>\<open>withRetry\<close> makes its three calls and then throws the timeout error to
  its caller (the result is on the error side); with a feed that never answers in
  time, \<^verbatim>\<open>fetchNasdaqHalts\<close> makes its three requests and then returns the empty
  list, with no error in its result.
\<close>

theorem retry_exhausted_counterexample:
  "withRetry slow_action ''Zacks News'' ''AAPL'' 3 10000 demo_world =
     (Inl (Error ''Request timeout''),
      \<lparr>clock = 34000, events = [Called 1, Slept 1000, Called 2, Slept 2000, Called 3]\<rparr>) \<and>
   fetchNasdaqHalts slow_feed demo_world =
     ([], \<lparr>clock = 28000,
           events = [Sent halts_request, Slept 1000, Sent halts_request, Slept 2000,
                     Sent halts_request]\<rparr>)"
proof -
  have a: "\<forall>t. \<exists>e. snd (race_timeout (slow_action t) 10000) = Inl e"
    by (simp add: slow_action_race)
  have b: "\<forall>t. \<exists>e. snd (halts_attempt slow_feed t) = Inl e"
    by (simp add: slow_feed_attempt)
  show ?thesis
    using withRetry_exhausted [OF a, of "''Zacks News''" "''AAPL''" demo_world]
      fetchNasdaqHalts_exhausted [OF b, of demo_world]
    by (simp add: slow_action_race slow_feed_attempt demo_world_def Let_def)
qed

text \<open>
  Claim C4 as amended.  When every attempt fails, \<^verbatim>\<open>withRetry\<close> with
  \<^verbatim>\<open>maxRetries = 3\<close> calls the action exactly three times, sleeping 1000 ms after
  the first and 2000 ms after the second failure and not after the third, and then
  throws the error of the third attempt to its caller; that error is
  \<^verbatim>\<open>Request timeout\<close> when no attempt settles within \<open>timeoutMs\<close>.  When every
  attempt fails, \<^verbatim>\<open>fetchNasdaqHalts\<close> sends exactly three requests with the same
  two sleeps between them and returns the empty list without throwing.
\<close>

theorem retry_exhausted:
  "((\<forall>t. \<exists>e. snd (race_timeout (fn t) timeoutMs) = Inl e) \<longrightarrow>
      withRetry fn name ticker 3 timeoutMs w =
        (let t1 = clock w;
             t2 = t1 + fst (race_timeout (fn t1) timeoutMs) + 1000;
             t3 = t2 + fst (race_timeout (fn t2) timeoutMs) + 2000
         in (snd (race_timeout (fn t3) timeoutMs),
             \<lparr>clock = t3 + fst (race_timeout (fn t3) timeoutMs),
              events = events w @ [Called 1, Slept 1000, Called 2, Slept 2000, Called 3]\<rparr>))) \<and>
   ((\<forall>t. timeoutMs \<le> duration (fn t)) \<longrightarrow>
      withRetry fn name ticker 3 timeoutMs w =
        (Inl (Error ''Request timeout''),
         \<lparr>clock = clock w + 3 * timeoutMs + 3000,
          events = events w @ [Called 1, Slept 1000, Called 2, Slept 2000, Called 3]\<rparr>)) \<and>
   ((\<forall>t. \<exists>e. snd (halts_attempt cfg t) = Inl e) \<longrightarrow>
      fetchNasdaqHalts cfg v =
        (let t1 = clock v;
             t2 = t1 + fst (halts_attempt cfg t1) + 1000;
             t3 = t2 + fst (halts_attempt cfg t2) + 2000
         in ([],
             \<lparr>clock = t3 + fst (halts_attempt cfg t3),
              events = events v @ [Sent halts_request, Slept 1000, Sent halts_request,
                                   Slept 2000, Sent halts_request]\<rparr>)))"
proof (intro conjI impI)
  assume "\<forall>t. \<exists>e. snd (race_timeout (fn t) timeoutMs) = Inl e"
  then show "withRetry fn name ticker 3 timeoutMs w =
        (let t1 = clock w;
             t2 = t1 + fst (race_timeout (fn t1) timeoutMs) + 1000;
             t3 = t2 + fst (race_timeout (fn t2) timeoutMs) + 2000
         in (snd (race_timeout (fn t3) timeoutMs),
             \<lparr>clock = t3 + fst (race_timeout (fn t3) timeoutMs),
              events = events w @ [Called 1, Slept 1000, Called 2, Slept 2000, Called 3]\<rparr>))"
    by (rule withRetry_exhausted)
next
  assume slow: "\<forall>t. timeoutMs \<le> duration (fn t)"
  have r: "race_timeout (fn t) timeoutMs = (timeoutMs, Inl (Error ''Request timeout''))" for t
    using timeouts_fail [OF slow] .
  have "\<forall>t. \<exists>e. snd (race_timeout (fn t) timeoutMs) = Inl e"
    by (simp add: r)
  from withRetry_exhausted [OF this, of name ticker w]
  show "withRetry fn name ticker 3 timeoutMs w =
        (Inl (Error ''Request timeout''),
         \<lparr>clock = clock w + 3 * timeoutMs + 3000,
          events = events w @ [Called 1, Slept 1000, Called 2, Slept 2000, Called 3]\<rparr>)"
    by (simp add: r Let_def)
next
  assume "\<forall>t. \<exists>e. snd (halts_attempt cfg t) = Inl e"
  then show "fetchNasdaqHalts cfg v =
        (let t1 = clock v;
             t2 = t1 + fst (halts_attempt cfg t1) + 1000;
             t3 = t2 + fst (halts_attempt cfg t2) + 2000
         in ([],
             \<lparr>clock = t3 + fst (halts_attempt cfg t3),
              events = events v @ [Sent halts_request, Slept 1000, Sent halts_request,
                                   Slept 2000, Sent halts_request]\<rparr>))"
    by (rule fetchNasdaqHalts_exhausted)
qed

theorem retry_exhausted_witness:
  "race_timeout (slow_action 0) 10000 = (10000, Inl (Error ''Request timeout'')) \<and>
   halts_attempt slow_feed 0 = (8000, Inl (AbortError ''This operation was aborted'')) \<and>
   withRetry slow_action ''Zacks News'' ''AAPL'' 3 10000 demo_world =
     (Inl (Error ''Request timeout''),
      \<lparr>clock = 34000, events = [Called 1, Slept 1000, Called 2, Slept 2000, Called 3]\<rparr>) \<and>
   fetchNasdaqHalts slow_feed demo_world =
     ([], \<lparr>clock = 28000,
           events = [Sent halts_request, Slept 1000, Sent halts_request, Slept 2000,
                     Sent halts_request]\<rparr>)"
proof -
  have a: "\<forall>t. \<exists>e. snd (race_timeout (slow_action t) 10000) = Inl e"
    by (simp add: slow_action_race)
  have a': "\<forall>t. 10000 \<le> duration (slow_action t)"
    by (simp add: slow_action_def)
  have b: "\<forall>t. \<exists>e. snd (halts_attempt slow_feed t) = Inl e"
    by (simp add: slow_feed_attempt)
  note t = retry_exhausted [where fn = slow_action and timeoutMs = 10000
      and name = "''Zacks News''" and ticker = "''AAPL''" and w = demo_world
      and cfg = slow_feed and v = demo_world]
  show ?thesis
    using t a a' b
    by (simp add: slow_action_race slow_feed_attempt demo_world_def Let_def)
qed

section \<open>Properties of the endpoint probing\<close>


lemma requests_fetch: "requests (snd (fetch nw req w)) = requests w @ [req]"
  by (simp add: fetch_def Let_def requests_def issue_def)

lemma requests_world_after:
  "requests (world_after nw cs w) = requests w @ map request_of cs"
  by (induction cs arbitrary: w) (simp_all add: requests_fetch)

lemma probe_unaccepted:
  assumes "\<not> accepted_at nw c w"
  shows "probe nw parse sid (c # cs) w = probe nw parse sid cs (snd (fetch nw (request_of c) w))"
  using assms
  by (cases "fetch nw (request_of c) w")
     (auto simp: accepted_at_def split: fetch_outcome.splits)

lemma probe_accepted:
  assumes "accepted_at nw c w"
  shows "probe nw parse (JStr sid) (c # cs) w =
           (Some (payload_at nw parse c w), snd (fetch nw (request_of c) w))"
  using assms
  by (cases "fetch nw (request_of c) w")
     (auto simp: accepted_at_def payload_at_def accept_response_def
        split: fetch_outcome.splits option.splits)

lemma probe_none:
  assumes "\<forall>k < length cs. \<not> accepted_at nw (cs ! k) (world_after nw (take k cs) w)"
  shows "probe nw parse sid cs w = (None, world_after nw cs w)"
  using assms
proof (induction cs arbitrary: w)
  case Nil
  show ?case by simp
next
  case (Cons c cs)
  have first: "\<not> accepted_at nw c w"
    using Cons.prems by fastforce
  have rest: "\<forall>k < length cs. \<not> accepted_at nw (cs ! k)
      (world_after nw (take k cs) (snd (fetch nw (request_of c) w)))"
  proof (intro allI impI)
    fix k assume "k < length cs"
    then show "\<not> accepted_at nw (cs ! k)
        (world_after nw (take k cs) (snd (fetch nw (request_of c) w)))"
      using Cons.prems [rule_format, of "Suc k"] by simp
  qed
  show ?case
    using probe_unaccepted [OF first] Cons.IH [OF rest] by simp
qed

lemma probe_first:
  assumes "i < length cs"
    and "\<forall>k < i. \<not> accepted_at nw (cs ! k) (world_after nw (take k cs) w)"
    and "accepted_at nw (cs ! i) (world_after nw (take i cs) w)"
  shows "probe nw parse (JStr sid) cs w =
           (Some (payload_at nw parse (cs ! i) (world_after nw (take i cs) w)),
            world_after nw (take (Suc i) cs) w)"
  using assms
proof (induction cs arbitrary: w i)
  case Nil
  then show ?case by simp
next
  case (Cons c cs)
  show ?case
  proof (cases i)
    case 0
    then show ?thesis
      using Cons.prems(3) probe_accepted [of nw c w parse sid cs] by simp
  next
    case (Suc j)
    have first: "\<not> accepted_at nw c w"
      using Cons.prems(2) [rule_format, of 0] Suc by simp
    have before: "\<forall>k < j. \<not> accepted_at nw (cs ! k)
        (world_after nw (take k cs) (snd (fetch nw (request_of c) w)))"
    proof (intro allI impI)
      fix k assume "k < j"
      then show "\<not> accepted_at nw (cs ! k)
          (world_after nw (take k cs) (snd (fetch nw (request_of c) w)))"
        using Cons.prems(2) [rule_format, of "Suc k"] Suc by simp
    qed
    have here: "accepted_at nw (cs ! j)
        (world_after nw (take j cs) (snd (fetch nw (request_of c) w)))"
      using Cons.prems(3) Suc by simp
    have "j < length cs"
      using Cons.prems(1) Suc by simp
    from Cons.IH [OF this before here]
    show ?thesis
      using probe_unaccepted [OF first] Suc by simp
  qed
qed


text \<open>
  Claim C5.  With a session id that is a string: if candidate \<open>i\<close> is the first one
  whose answer, at the time it is tried, is accepted, the loop returns the payload of
  that candidate, and the requests it has issued are those of candidates \<open>0\<close> to
  \<open>i\<close>, in the declared order, so no later candidate is requested.  If no candidate
  is accepted, all of them have been requested in order and the handler answers
  that there is no direct access.
\<close>

theorem probe_first_accepted:
  assumes "tmxSessionId = JStr sid"
  shows "(i < length cs \<and>
          (\<forall>k < i. \<not> accepted_at nw (cs ! k) (world_after nw (take k cs) w)) \<and>
          accepted_at nw (cs ! i) (world_after nw (take i cs) w) \<longrightarrow>
            fst (probe_endpoints nw parse tmxSessionId cs w) =
              payload_at nw parse (cs ! i) (world_after nw (take i cs) w) \<and>
            requests (snd (probe_endpoints nw parse tmxSessionId cs w)) =
              requests w @ map request_of (take (Suc i) cs)) \<and>
         ((\<forall>k < length cs. \<not> accepted_at nw (cs ! k) (world_after nw (take k cs) w)) \<longrightarrow>
            fst (probe_endpoints nw parse tmxSessionId cs w) = NoDirectAccess (length cs) \<and>
            requests (snd (probe_endpoints nw parse tmxSessionId cs w)) =
              requests w @ map request_of cs)"
proof (intro conjI impI)
  assume a: "i < length cs \<and>
      (\<forall>k < i. \<not> accepted_at nw (cs ! k) (world_after nw (take k cs) w)) \<and>
      accepted_at nw (cs ! i) (world_after nw (take i cs) w)"
  then have p: "probe nw parse (JStr sid) cs w =
      (Some (payload_at nw parse (cs ! i) (world_after nw (take i cs) w)),
       world_after nw (take (Suc i) cs) w)"
    using probe_first [of i cs nw w parse sid] by blast
  show "fst (probe_endpoints nw parse tmxSessionId cs w) =
      payload_at nw parse (cs ! i) (world_after nw (take i cs) w)"
    by (simp add: probe_endpoints_def assms p)
  show "requests (snd (probe_endpoints nw parse tmxSessionId cs w)) =
      requests w @ map request_of (take (Suc i) cs)"
    by (simp add: probe_endpoints_def assms p requests_world_after del: take_Suc_Cons)
next
  assume "\<forall>k < length cs. \<not> accepted_at nw (cs ! k) (world_after nw (take k cs) w)"
  then have p: "probe nw parse (JStr sid) cs w = (None, world_after nw cs w)"
    by (rule probe_none)
  show "fst (probe_endpoints nw parse tmxSessionId cs w) = NoDirectAccess (length cs)"
    by (simp add: probe_endpoints_def assms p)
  show "requests (snd (probe_endpoints nw parse tmxSessionId cs w)) =
      requests w @ map request_of cs"
    by (simp add: probe_endpoints_def assms p requests_world_after)
qed

lemma abc_accepts:
  "\<not> accepted_at abc_net cand_A w" "accepted_at abc_net cand_B w" "accepted_at abc_net cand_C w"
  by (simp_all add: accepted_at_def fetch_def abc_net_def cand_A_def cand_B_def cand_C_def
        request_of_def resp_ok_def accepted_text_def isMarketData_def startsWith_def Let_def)

lemma abc_payload:
  "payload_at abc_net abc_parse cand_B w =
     MarketData (JObj [(''price'', JNum 1)]) (JObj [(''price'', JNum 1)]) ''B'' ''GET''"
  by (simp add: payload_at_def fetch_def abc_net_def cand_B_def request_of_def abc_parse_def
        quotes_of_def jor_def Let_def)

theorem probe_first_accepted_witness:
  "\<not> accepted_at abc_net cand_A demo_world \<and>
   accepted_at abc_net cand_B (world_after abc_net [cand_A] demo_world) \<and>
   accepted_at abc_net cand_C (world_after abc_net [cand_A, cand_B] demo_world) \<and>
   fst (probe_endpoints abc_net abc_parse (JStr ''session'') [cand_A, cand_B, cand_C] demo_world) =
     MarketData (JObj [(''price'', JNum 1)]) (JObj [(''price'', JNum 1)]) ''B'' ''GET'' \<and>
   requests (snd (probe_endpoints abc_net abc_parse (JStr ''session'') [cand_A, cand_B, cand_C]
                    demo_world)) =
     [request_of cand_A, request_of cand_B] \<and>
   fst (probe_endpoints abc_net abc_parse (JStr ''session'') [cand_A, cand_A] demo_world) =
     NoDirectAccess 2 \<and>
   requests (snd (probe_endpoints abc_net abc_parse (JStr ''session'') [cand_A, cand_A] demo_world)) =
     [request_of cand_A, request_of cand_A]"
proof -
  have r0: "requests demo_world = []"
    by (simp add: requests_def demo_world_def)
  have before: "\<forall>k < 1. \<not> accepted_at abc_net ([cand_A, cand_B, cand_C] ! k)
      (world_after abc_net (take k [cand_A, cand_B, cand_C]) demo_world)"
    by (simp add: abc_accepts)
  have none: "\<forall>k < length [cand_A, cand_A]. \<not> accepted_at abc_net ([cand_A, cand_A] ! k)
      (world_after abc_net (take k [cand_A, cand_A]) demo_world)"
    by (simp add: abc_accepts nth_Cons')
  note t1 = probe_first_accepted [where tmxSessionId = "JStr ''session''" and sid = "''session''"
      and i = 1 and cs = "[cand_A, cand_B, cand_C]" and nw = abc_net and w = demo_world
      and parse = abc_parse]
  note t2 = probe_first_accepted [where tmxSessionId = "JStr ''session''" and sid = "''session''"
      and cs = "[cand_A, cand_A]" and nw = abc_net and w = demo_world and parse = abc_parse]
  have one: "fst (probe_endpoints abc_net abc_parse (JStr ''session'') [cand_A, cand_B, cand_C]
                demo_world) =
       MarketData (JObj [(''price'', JNum 1)]) (JObj [(''price'', JNum 1)]) ''B'' ''GET'' \<and>
     requests (snd (probe_endpoints abc_net abc_parse (JStr ''session'') [cand_A, cand_B, cand_C]
                demo_world)) = [request_of cand_A, request_of cand_B]"
    using t1 before by (simp add: abc_accepts abc_payload r0)
  have two: "fst (probe_endpoints abc_net abc_parse (JStr ''session'') [cand_A, cand_A] demo_world) =
       NoDirectAccess 2 \<and>
     requests (snd (probe_endpoints abc_net abc_parse (JStr ''session'') [cand_A, cand_A]
                demo_world)) = [request_of cand_A, request_of cand_A]"
    using t2 none by (simp add: r0)
  show ?thesis
    using one two by (simp add: abc_accepts)
qed

text \<open>
  Claim C6 fails on the code: the list of field names is a different one, and a body
  that merely parses as JSON is not enough.  A body with only \<^verbatim>\<open>"open"\<close> is
  accepted by the code and not by the rule as specified; a body with only
  \<^verbatim>\<open>"quote"\<close> is accepted by the rule as specified and not by the code.
\<close>

theorem accept_counterexample:
  \<open>accepted_text ''{"open":1}'' \<and> \<not> spec_accept (\<lambda>s. True) ''{"open":1}'' \<and>
   spec_accept (\<lambda>s. False) ''{"quote":1}'' \<and> \<not> accepted_text ''{"quote":1}''\<close>
  by (simp add: accepted_text_def isMarketData_def spec_accept_def spec_fields_def startsWith_def)

text \<open>
  Claim C6 as amended.  A response body is accepted exactly when it starts with a
  brace or a bracket and contains at least one of the quoted field names
  \<^verbatim>\<open>"price"\<close>, \<^verbatim>\<open>"last"\<close>, \<^verbatim>\<open>"bid"\<close>, \<^verbatim>\<open>"ask"\<close>, \<^verbatim>\<open>"volume"\<close>, \<^verbatim>\<open>"change"\<close>,
  \<^verbatim>\<open>"open"\<close>, \<^verbatim>\<open>"high"\<close>, \<^verbatim>\<open>"low"\<close>.
\<close>

theorem accept_rule:
  "accepted_text body =
     ((\<exists>c \<in> set ''{[''. \<exists>rest. body = c # rest) \<and> (\<exists>k \<in> set code_fields. includes_str body k))"
  by (cases body) (auto simp: accepted_text_def isMarketData_def code_fields_def startsWith_def)

section \<open>Properties of the quote normalisation\<close>


lemma jor_falsy: "\<not> truthy a \<Longrightarrow> jor a b = b"
  by (simp add: jor_def)

lemma parseInt_num_zero: "parseInt_num 0 = 0"
  by (simp add: parseInt_num_def)

lemma transform_stock_throws:
  "transform_stock now JNull = Inl (TypeError ''Cannot read properties of null'')"
  "transform_stock now JUndefined = Inl (TypeError ''Cannot read properties of undefined'')"
  by (simp_all add: transform_stock_def)

lemma getprop_Inr: "stock \<noteq> JNull \<Longrightarrow> stock \<noteq> JUndefined \<Longrightarrow> \<exists>k. getprop stock ''key'' = Inr k"
  by (cases stock) simp_all

lemma transform_stock_object:
  assumes "stock \<noteq> JNull" "stock \<noteq> JUndefined"
  shows "\<exists>fields. transform_stock now stock = Inr (JObj fields)"
  using getprop_Inr [OF assms]
  by (auto simp: transform_stock_def Let_def)


lemma transform_stock_fields:
  assumes "transform_stock now stock = Inr q"
  shows "q = JObj
         [(''symbol'', jor (jor (oprop (oprop stock ''key'') ''symbol'') (oprop stock ''symbol'')) (JStr ''N/A'')),
          (''price'', parseFloat (jor (jor (jor (oprop (oprop stock ''pricedata'') ''last'') (oprop stock ''last''))
                                  (oprop stock ''price'')) (JNum 0))),
          (''change'', parseFloat (jor (jor (oprop (oprop stock ''pricedata'') ''change'') (oprop stock ''change''))
                                  (JNum 0))),
          (''changePercent'', parseFloat (jor (jor (jor (oprop (oprop stock ''pricedata'') ''changepercent'')
                                  (oprop stock ''changepercent'')) (oprop stock ''changePercent''))
                                  (JNum 0))),
          (''tick'', parseInt (jor (oprop (oprop stock ''pricedata'') ''tick'') (JNum 0))),
          (''open'', parseFloat (jor (jor (oprop (oprop stock ''pricedata'') ''open'') (oprop stock ''open''))
                                  (JNum 0))),
          (''high'', parseFloat (jor (jor (oprop (oprop stock ''pricedata'') ''high'') (oprop stock ''high''))
                                  (JNum 0))),
          (''low'', parseFloat (jor (jor (oprop (oprop stock ''pricedata'') ''low'') (oprop stock ''low''))
                                  (JNum 0))),
          (''previousClose'', parseFloat (jor (jor (jor (oprop (oprop stock ''pricedata'') ''prevclose'')
                                  (oprop stock ''prevclose'')) (oprop stock ''previousClose''))
                                  (JNum 0))),
          (''bid'', parseFloat (jor (jor (oprop (oprop stock ''pricedata'') ''bid'') (oprop stock ''bid''))
                                  (JNum 0))),
          (''ask'', parseFloat (jor (jor (oprop (oprop stock ''pricedata'') ''ask'') (oprop stock ''ask''))
                                  (JNum 0))),
          (''bidSize'', parseInt (jor (jor (oprop (oprop stock ''pricedata'') ''bidsize'') (oprop stock ''bidsize''))
                                  (JNum 0))),
          (''askSize'', parseInt (jor (jor (oprop (oprop stock ''pricedata'') ''asksize'') (oprop stock ''asksize''))
                                  (JNum 0))),
          (''rawBidSize'', parseInt (jor (jor (oprop (oprop stock ''pricedata'') ''rawbidsize'')
                                  (oprop stock ''rawbidsize'')) (JNum 0))),
          (''rawAskSize'', parseInt (jor (jor (oprop (oprop stock ''pricedata'') ''rawasksize'')
                                  (oprop stock ''rawasksize'')) (JNum 0))),
          (''tradevolume'', parseInt (jor (jor (oprop (oprop stock ''pricedata'') ''tradevolume'')
                                  (oprop stock ''tradevolume'')) (JNum 0))),
          (''sharevolume'', parseInt (jor (jor (jor (oprop (oprop stock ''pricedata'') ''sharevolume'')
                                  (oprop stock ''sharevolume'')) (oprop stock ''volume''))
                                  (JNum 0))),
          (''volume'', parseInt (jor (jor (jor (oprop (oprop stock ''pricedata'') ''sharevolume'')
                                  (oprop stock ''sharevolume'')) (oprop stock ''volume''))
                                  (JNum 0))),
          (''vwap'', parseFloat (jor (jor (oprop (oprop stock ''pricedata'') ''vwap'') (oprop stock ''vwap''))
                                  (JNum 0))),
          (''vwapvolume'', parseInt (jor (jor (oprop (oprop stock ''pricedata'') ''vwapvolume'')
                                  (oprop stock ''vwapvolume'')) (JNum 0))),
          (''marketCap'', jor (jor (oprop stock ''marketcap'') (oprop (oprop stock ''fundamental'') ''marketcap''))
                                  (JNum 0)),
          (''eps'', jor (jor (oprop stock ''eps'') (oprop (oprop stock ''fundamental'') ''eps'')) JNull),
          (''peRatio'', jor (jor (oprop stock ''peratio'') (oprop (oprop stock ''fundamental'') ''peratio'')) JNull),
          (''pbRatio'', jor (jor (oprop stock ''pbratio'') (oprop (oprop stock ''fundamental'') ''pbratio'')) JNull),
          (''week52High'', jor (jor (oprop stock ''week52high'')
                                  (oprop (oprop (oprop stock ''fundamental'') ''week52high'') ''content''))
                                  (JNum 0)),
          (''week52Low'', jor (jor (oprop stock ''week52low'')
                                  (oprop (oprop (oprop stock ''fundamental'') ''week52low'') ''content''))
                                  (JNum 0)),
          (''exchange'', jor (jor (oprop stock ''exchange'') (oprop (oprop stock ''key'') ''exchange''))
                                  (JStr ''US'')),
          (''exchangeLongName'', jor (jor (oprop stock ''exchangeLongName'')
                                  (oprop (oprop stock ''key'') ''exLgName'')) (JStr ''US Exchange'')),
          (''companyName'', jor (jor (jor (jor (oprop (oprop stock ''equityinfo'') ''longname'')
                                  (oprop stock ''companyname'')) (oprop stock ''longname''))
                                  (oprop (oprop stock ''equityinfo'') ''shortname'')) (JStr ''N/A'')),
          (''shortName'', jor (jor (jor (oprop (oprop stock ''equityinfo'') ''shortname'')
                                  (oprop stock ''shortname'')) (oprop (oprop stock ''equityinfo'') ''longname''))
                                  (JStr ''N/A'')),
          (''datatype'', jor (oprop stock ''datatype'') (JStr ''equity'')),
          (''symbolString'', jor (jor (oprop (oprop stock ''key'') ''symbol'') (oprop stock ''symbolstring''))
                                  (oprop stock ''symbol'')),
          (''lastTradeTime'', jor (jor (oprop (oprop stock ''pricedata'') ''lasttradedatetime'')
                                  (oprop stock ''lasttradedatetime'')) (JStr now)),
          (''entitlement'', jor (oprop stock ''entitlement'') (JStr ''RT''))]"
  using assms
  by (simp add: transform_stock_def Let_def split: sum.splits)




lemma alookup_weak_cong: "k = k' \<Longrightarrow> alookup kvs k = alookup kvs k'"
  by simp

lemma numeric_defaults:
  assumes "transform_stock now stock = Inr q"
  shows "\<forall>(f, sources, d) \<in> set numeric_fields.
           (\<forall>p \<in> set sources. \<not> truthy (read_path stock p)) \<longrightarrow> oprop q f = d"
  unfolding transform_stock_fields [OF assms] numeric_fields_def
  by (simp add: jor_falsy parseInt_num_zero cong: alookup_weak_cong)


lemma map_throwing_total:
  assumes "\<forall>s \<in> set stocks. s \<noteq> JNull \<and> s \<noteq> JUndefined"
  shows "\<exists>qs. map_throwing (transform_stock now) stocks = Inr qs \<and> length qs = length stocks"
  using assms
proof (induction stocks)
  case Nil
  show ?case by simp
next
  case (Cons s stocks)
  obtain fields where "transform_stock now s = Inr (JObj fields)"
    using transform_stock_object [of s now] Cons.prems by auto
  moreover obtain qs where "map_throwing (transform_stock now) stocks = Inr qs"
    "length qs = length stocks"
    using Cons by auto
  ultimately show ?case by simp
qed

lemma aapl_marketStats: "marketStats_of aapl_response = Inr (JArr [aapl_stock])"
  by (simp add: marketStats_of_def aapl_response_def)

lemma aapl_quote:
  assumes "transform_stock now aapl_stock = Inr q"
  shows "oprop q ''symbol'' = JStr ''AAPL''" "oprop q ''price'' = JNum (25806 / 100)"
    "oprop q ''change'' = JNum (12 / 10)" "oprop q ''volume'' = JNum 0"
  unfolding transform_stock_fields [OF assms]
  by (simp_all add: aapl_stock_def jor_def parseInt_num_zero cong: alookup_weak_cong)

text \<open>
  Claim C3.  For the response of the example the mapping returns exactly one record,
  with symbol \<^verbatim>\<open>AAPL\<close>, price 258.06, change 1.2 and volume 0.  In general the
  mapping of a stock that is not \<^verbatim>\<open>null\<close> returns a record and does not throw, and
  in that record every numeric field none of whose upstream sources has a value is
  \<open>0\<close>, and every optional field (\<^verbatim>\<open>eps\<close>, \<^verbatim>\<open>peRatio\<close>, \<^verbatim>\<open>pbRatio\<close>) without a
  source value is \<^verbatim>\<open>null\<close>; a list of such stocks gives a list of as many records.
\<close>

theorem quote_defaults:
  "(\<exists>q. transform_quotes now aapl_response = Inr [q] \<and>
        oprop q ''symbol'' = JStr ''AAPL'' \<and> oprop q ''price'' = JNum (25806 / 100) \<and>
        oprop q ''change'' = JNum (12 / 10) \<and> oprop q ''volume'' = JNum 0) \<and>
   (stock \<noteq> JNull \<and> stock \<noteq> JUndefined \<longrightarrow>
      (\<exists>q. transform_stock now stock = Inr q \<and>
         (\<forall>(f, sources, d) \<in> set numeric_fields.
            (\<forall>p \<in> set sources. \<not> truthy (read_path stock p)) \<longrightarrow> oprop q f = d))) \<and>
   ((\<forall>s \<in> set stocks. s \<noteq> JNull \<and> s \<noteq> JUndefined) \<longrightarrow>
      (\<exists>qs. transform_quotes now (JArr stocks) = Inr qs \<and> length qs = length stocks))"
proof (intro conjI impI)
  obtain fields where f: "transform_stock now aapl_stock = Inr (JObj fields)"
    using transform_stock_object [of aapl_stock now] by (auto simp: aapl_stock_def)
  have "transform_quotes now aapl_response = Inr [JObj fields]"
    by (simp add: transform_quotes_def aapl_marketStats f)
  then show "\<exists>q. transform_quotes now aapl_response = Inr [q] \<and>
        oprop q ''symbol'' = JStr ''AAPL'' \<and> oprop q ''price'' = JNum (25806 / 100) \<and>
        oprop q ''change'' = JNum (12 / 10) \<and> oprop q ''volume'' = JNum 0"
    using aapl_quote [OF f] by blast
next
  assume "stock \<noteq> JNull \<and> stock \<noteq> JUndefined"
  then obtain fields where f: "transform_stock now stock = Inr (JObj fields)"
    using transform_stock_object [of stock now] by auto
  show "\<exists>q. transform_stock now stock = Inr q \<and>
         (\<forall>(f, sources, d) \<in> set numeric_fields.
            (\<forall>p \<in> set sources. \<not> truthy (read_path stock p)) \<longrightarrow> oprop q f = d)"
    using numeric_defaults [OF f] f by blast
next
  assume a: "\<forall>s \<in> set stocks. s \<noteq> JNull \<and> s \<noteq> JUndefined"
  have "marketStats_of (JArr stocks) = Inr (JArr stocks)"
    by (simp add: marketStats_of_def)
  then show "\<exists>qs. transform_quotes now (JArr stocks) = Inr qs \<and> length qs = length stocks"
    using map_throwing_total [OF a, of now] by (simp add: transform_quotes_def)
qed

theorem quote_defaults_witness:
  "\<exists>q. transform_stock ''2026-11-03T09:41:05.000Z'' aapl_stock = Inr q \<and>
        transform_quotes ''2026-11-03T09:41:05.000Z'' (JArr [aapl_stock]) = Inr [q] \<and>
        oprop q ''volume'' = JNum 0 \<and> oprop q ''bid'' = JNum 0 \<and> oprop q ''eps'' = JNull"
proof -
  have nn: "aapl_stock \<noteq> JNull \<and> aapl_stock \<noteq> JUndefined"
    by (simp add: aapl_stock_def)
  note t = quote_defaults [where now = "''2026-11-03T09:41:05.000Z''" and stock = aapl_stock
      and stocks = "[aapl_stock]"]
  from t nn obtain q where q: "transform_stock ''2026-11-03T09:41:05.000Z'' aapl_stock = Inr q"
    and d: "\<forall>(f, sources, d) \<in> set numeric_fields.
            (\<forall>p \<in> set sources. \<not> truthy (read_path aapl_stock p)) \<longrightarrow> oprop q f = d"
    by blast
  have m: "(''volume'', [[''pricedata'', ''sharevolume''], [''sharevolume''], [''volume'']], JNum 0)
             \<in> set numeric_fields"
    "(''bid'', [[''pricedata'', ''bid''], [''bid'']], JNum 0) \<in> set numeric_fields"
    "(''eps'', [[''eps''], [''fundamental'', ''eps'']], JNull) \<in> set numeric_fields"
    by (simp_all add: numeric_fields_def)
  have absent:
    "\<forall>p \<in> set [[''pricedata'', ''sharevolume''], [''sharevolume''], [''volume'']].
        \<not> truthy (read_path aapl_stock p)"
    "\<forall>p \<in> set [[''pricedata'', ''bid''], [''bid'']]. \<not> truthy (read_path aapl_stock p)"
    "\<forall>p \<in> set [[''eps''], [''fundamental'', ''eps'']]. \<not> truthy (read_path aapl_stock p)"
    by (simp_all add: aapl_stock_def)
  have v: "oprop q ''volume'' = JNum 0" "oprop q ''bid'' = JNum 0" "oprop q ''eps'' = JNull"
    using bspec [OF d m(1)] bspec [OF d m(2)] bspec [OF d m(3)] absent by simp_all
  have "transform_quotes ''2026-11-03T09:41:05.000Z'' (JArr [aapl_stock]) = Inr [q]"
    by (simp add: transform_quotes_def marketStats_of_def q)
  then show ?thesis
    using q v by blast
qed

section \<open>Properties of the HTML fallback parser\<close>



lemma shift_Some: "shift k r = Some x \<Longrightarrow> \<exists>y. r = Some y"
  by (cases r) (simp_all add: shift_def)

lemma matches_lit:
  "matches p s = Some r \<Longrightarrow> Lit l \<in> set p \<Longrightarrow> set l \<subseteq> set s"
proof (induction p s arbitrary: r rule: matches.induct)
  case (1 s)
  then show ?case by simp
next
  case (2 l' as s)
  from "2.prems"(1) have eq: "take (length l') s = l'"
    by (simp split: if_splits)
  from "2.prems"(1) eq obtain y where y: "matches as (drop (length l') s) = Some y"
    using shift_Some by fastforce
  show ?case
  proof (cases "l = l'")
    case True
    then show ?thesis using eq set_take_subset [of "length l'" s] by auto
  next
    case False
    then have "Lit l \<in> set as" using "2.prems"(2) by simp
    then have "set l \<subseteq> set (drop (length l') s)"
      using "2.IH" [OF _ y] eq by simp
    then show ?thesis using set_drop_subset [of "length l'" s] by blast
  qed
next
  case (3 l' as s)
  from "3.prems"(1) have eq: "map lower (take (length l') s) = map lower l'"
    by (simp split: if_splits)
  from "3.prems"(1) eq obtain y where y: "matches as (drop (length l') s) = Some y"
    using shift_Some by fastforce
  have "Lit l \<in> set as" using "3.prems"(2) by simp
  then have "set l \<subseteq> set (drop (length l') s)"
    using "3.IH" [OF _ y] eq by simp
  then show ?case using set_drop_subset [of "length l'" s] by blast
next
  case (4 c as s)
  from "4.prems"(1) obtain x xs where s: "s = x # xs" and c: "in_cls c x"
    by (cases s) (auto split: if_splits)
  from "4.prems"(1) s c obtain y where y: "matches as xs = Some y"
    using shift_Some by fastforce
  have "Lit l \<in> set as" using "4.prems"(2) by simp
  then have "set l \<subseteq> set xs"
    using "4.IH" [OF s c y] by simp
  then show ?case using s by auto
next
  case (5 c as s)
  have in_as: "Lit l \<in> set as" using "5.prems"(2) by simp
  show ?case
  proof (cases s)
    case Nil
    then show ?thesis using "5.prems"(1) "5.IH"(1) in_as by simp
  next
    case (Cons x xs)
    show ?thesis
    proof (cases "in_cls c x")
      case False
      then show ?thesis using "5.prems"(1) "5.IH"(4) [OF Cons] in_as Cons by simp
    next
      case True
      show ?thesis
      proof (cases "matches (StarG c # as) xs")
        case None
        then show ?thesis
          using "5.prems"(1) "5.IH"(3) [OF Cons True] in_as Cons True by simp
      next
        case (Some y)
        then have "set l \<subseteq> set xs"
          using "5.IH"(2) [OF Cons True] "5.prems"(2) by simp
        then show ?thesis using Cons by auto
      qed
    qed
  qed
next
  case (6 c as s)
  have in_as: "Lit l \<in> set as" using "6.prems"(2) by simp
  show ?case
  proof (cases "matches as s")
    case (Some y)
    then show ?thesis using "6.IH"(1) in_as by simp
  next
    case None
    from "6.prems"(1) None obtain x xs where s: "s = x # xs" and c: "in_cls c x"
      by (cases s) (auto split: if_splits)
    from "6.prems"(1) None s c obtain y where y: "matches (StarL c # as) xs = Some y"
      using shift_Some by fastforce
    have "set l \<subseteq> set xs"
      using "6.IH"(2) [OF None s c y] "6.prems"(2) by simp
    then show ?thesis using s by auto
  qed
next
  case (7 as s)
  from "7.prems"(1) obtain y where y: "matches as s = Some y"
    by (cases "matches as s") simp_all
  have "Lit l \<in> set as" using "7.prems"(2) by simp
  then show ?case using "7.IH" [OF y] by simp
qed

lemma search_lit:
  "search p s = Some r \<Longrightarrow> Lit l \<in> set p \<Longrightarrow> set l \<subseteq> set s"
proof (induction s arbitrary: r)
  case Nil
  then obtain y where "matches p [] = Some y"
    by (cases "matches p []") simp_all
  then show ?case using matches_lit Nil.prems(2) by blast
next
  case (Cons x xs)
  show ?case
  proof (cases "matches p (x # xs)")
    case (Some y)
    then show ?thesis using matches_lit Cons.prems(2) by blast
  next
    case None
    then obtain y where "search p xs = Some y"
      using Cons.prems(1) by (cases "search p xs") simp_all
    then have "set l \<subseteq> set xs"
      using Cons.IH Cons.prems(2) by blast
    then show ?thesis by auto
  qed
qed

lemma search_without:
  assumes "Lit [c] \<in> set p" and "c \<notin> set s"
  shows "search p s = None"
proof (cases "search p s")
  case None
  then show ?thesis .
next
  case (Some r)
  then have "set [c] \<subseteq> set s"
    using search_lit assms(1) by blast
  then show ?thesis using assms(2) by simp
qed


lemma match_group_without:
  assumes "Lit [c] \<in> set p" and "c \<notin> set s"
  shows "match_group p s = None"
  by (simp add: match_group_def search_without [OF assms])

lemma no_pattern_data:
  assumes "CHR ''{'' \<notin> set htmlText" and "CHR ''['' \<notin> set htmlText"
  shows "first_pattern_data parse jsDataPatterns htmlText = None"
proof -
  have "match_group p htmlText = None" if "p \<in> set jsDataPatterns" for p
  proof -
    have "Lit ''{'' \<in> set p \<or> Lit ''['' \<in> set p"
      using that by (auto simp: jsDataPatterns_def object_group_def)
    then show ?thesis
      using match_group_without assms by blast
  qed
  then have "first_pattern_data parse ps htmlText = None" if "set ps \<subseteq> set jsDataPatterns" for ps
    using that by (induction ps) auto
  then show ?thesis by simp
qed

lemma no_embedded_data:
  assumes "CHR ''{'' \<notin> set htmlText" and "CHR ''['' \<notin> set htmlText"
  shows "embedded_data parse htmlText = None"
proof -
  have "search json_in_html htmlText = None"
    by (rule search_without [of "CHR ''{''"]) (simp_all add: json_in_html_def assms)
  then show ?thesis
    by (simp add: embedded_data_def no_pattern_data [OF assms] match_whole_def)
qed

lemma no_table_quotes:
  assumes "CHR ''>'' \<notin> set htmlText"
  shows "table_quotes now htmlText = []"
proof -
  have "search tr_pattern htmlText = None"
    by (rule search_without [of "CHR ''>''"]) (simp_all add: tr_pattern_def assms)
  then have "match_all tr_pattern htmlText = []"
    by (subst match_all.simps) simp
  then show ?thesis
    by (simp add: table_quotes_def)
qed

lemma row_quote_source:
  "q \<in> set (row_quote now row) \<Longrightarrow> oprop q ''source'' = JStr ''TMX PowerStream''"
  by (auto simp: row_quote_def split: list.splits if_splits)

lemma table_quotes_source:
  "q \<in> set (table_quotes now htmlText) \<Longrightarrow> oprop q ''source'' = JStr ''TMX PowerStream''"
  by (auto simp: table_quotes_def dest: row_quote_source)

lemma debug_record_fields:
  "oprop (debug_record now htmlText) ''source'' = JStr ''TMX PowerStream''"
  "oprop (debug_record now htmlText) ''rawHtmlLength'' = JNum (of_nat (length htmlText))"
  "oprop (debug_record now htmlText) ''debug'' =
     JStr ''No parseable market data found in HTML response''"
  "oprop (debug_record now htmlText) ''symbol'' = JStr ''DEBUG''"
  by (simp_all add: debug_record_def)


lemma demo_rows: "match_all tr_pattern demo_table_html = [demo_table_html]"
  by code_simp

lemma demo_cells: "match_all td_pattern demo_table_html = [''<td>AAPL</td>'', ''<td>258.06</td>'', ''<td><b>1.2</b></td>'']"
  by code_simp

lemma demo_cell_text: "cell_text ''<td><b>1.2</b></td>'' = ''1.2''"
  by code_simp


lemma demo_cell_texts: "cell_text ''<td>AAPL</td>'' = ''AAPL''" "cell_text ''<td>258.06</td>'' = ''258.06''"
  by code_simp+

lemma demo_floats: "parseFloat_str ''258.06'' = JNum (25806 / 100)" "parseFloat_str ''1.2'' = JNum (12 / 10)"
  by (simp_all add: parseFloat_str_def read_sign_def is_space_def is_digit_def scale10_def
        read_exponent_def signed_def digit_val_def)

lemma demo_row_quote:
  "row_quote now demo_table_html =
     [JObj [(''symbol'', JStr ''AAPL''), (''last'', JNum (25806 / 100)), (''change'', JNum (12 / 10)),
            (''source'', JStr ''TMX PowerStream''), (''timestamp'', JStr now)]]"
  by (simp add: row_quote_def demo_cells demo_cell_texts demo_cell_text demo_floats jor_def)

lemma unparsed_no_embedded: "embedded_data (\<lambda>s. None) htmlText = None"
proof -
  have "first_pattern_data (\<lambda>s. None) ps htmlText = None" for ps
    by (induction ps) (simp_all split: option.splits)
  then show ?thesis
    by (simp add: embedded_data_def split: option.splits)
qed

lemma demo_table_result:
  "parseTMXMarketData (\<lambda>s. None) now demo_table_html =
     [JObj [(''symbol'', JStr ''AAPL''), (''last'', JNum (25806 / 100)), (''change'', JNum (12 / 10)),
            (''source'', JStr ''TMX PowerStream''), (''timestamp'', JStr now)]]"
  by (simp add: parseTMXMarketData_def unparsed_no_embedded table_quotes_def demo_rows
        demo_row_quote)

text \<open>
  Claim C8 fails on the code in its last part: a record made from a table row
  carries \<^verbatim>\<open>source: 'TMX PowerStream'\<close>, the same tag as the placeholder; the tag
  \<^verbatim>\<open>html-table-fallback\<close> occurs nowhere.
\<close>

theorem table_fallback_counterexample:
  "map (\<lambda>q. oprop q ''source'') (parseTMXMarketData (\<lambda>s. None) demo_time demo_table_html) =
     [JStr ''TMX PowerStream'']"
  by (simp add: demo_table_result)

text \<open>
  Claim C8 as amended.  \<^verbatim>\<open>parseTMXMarketData\<close> returns a list for every input
  string and every behaviour of \<^verbatim>\<open>JSON.parse\<close>; it has no throwing path.  When no
  embedded data is found, every record it returns is tagged
  \<^verbatim>\<open>source: 'TMX PowerStream'\<close>.  When in addition no table row yields a record, the
  result is the single placeholder record, which carries the length of the input as
  \<^verbatim>\<open>rawHtmlLength\<close> and a \<^verbatim>\<open>debug\<close> note; this is the case for every input without
  a brace, a bracket and a \<^verbatim>\<open>>\<close>.
\<close>

theorem parse_never_raises:
  "(embedded_data parse htmlText = None \<longrightarrow>
      (\<forall>q \<in> set (parseTMXMarketData parse now htmlText).
         oprop q ''source'' = JStr ''TMX PowerStream'')) \<and>
   (embedded_data parse htmlText = None \<and> table_quotes now htmlText = [] \<longrightarrow>
      parseTMXMarketData parse now htmlText = [debug_record now htmlText]) \<and>
   (CHR ''{'' \<notin> set htmlText \<and> CHR ''['' \<notin> set htmlText \<and> CHR ''>'' \<notin> set htmlText \<longrightarrow>
      parseTMXMarketData parse now htmlText = [debug_record now htmlText]) \<and>
   oprop (debug_record now htmlText) ''rawHtmlLength'' = JNum (of_nat (length htmlText)) \<and>
   oprop (debug_record now htmlText) ''debug'' =
     JStr ''No parseable market data found in HTML response''"
proof (intro conjI impI ballI)
  fix q
  assume none: "embedded_data parse htmlText = None"
    and q: "q \<in> set (parseTMXMarketData parse now htmlText)"
  show "oprop q ''source'' = JStr ''TMX PowerStream''"
  proof (cases "table_quotes now htmlText = []")
    case True
    then have "q = debug_record now htmlText"
      using q none by (simp add: parseTMXMarketData_def)
    then show ?thesis by (simp add: debug_record_fields)
  next
    case False
    then have "q \<in> set (table_quotes now htmlText)"
      using q none by (simp add: parseTMXMarketData_def)
    then show ?thesis by (rule table_quotes_source)
  qed
next
  assume "embedded_data parse htmlText = None \<and> table_quotes now htmlText = []"
  then show "parseTMXMarketData parse now htmlText = [debug_record now htmlText]"
    by (simp add: parseTMXMarketData_def)
next
  assume "CHR ''{'' \<notin> set htmlText \<and> CHR ''['' \<notin> set htmlText \<and> CHR ''>'' \<notin> set htmlText"
  then show "parseTMXMarketData parse now htmlText = [debug_record now htmlText]"
    by (simp add: parseTMXMarketData_def no_embedded_data no_table_quotes)
qed (simp_all add: debug_record_fields)

theorem parse_never_raises_witness:
  "parseTMXMarketData (\<lambda>s. None) demo_time ''garbage'' = [debug_record demo_time ''garbage''] \<and>
   oprop (debug_record demo_time ''garbage'') ''rawHtmlLength'' = JNum 7 \<and>
   embedded_data (\<lambda>s. None) demo_table_html = None \<and>
   parseTMXMarketData (\<lambda>s. None) demo_time demo_table_html =
     [JObj [(''symbol'', JStr ''AAPL''), (''last'', JNum (25806 / 100)), (''change'', JNum (12 / 10)),
            (''source'', JStr ''TMX PowerStream''), (''timestamp'', JStr demo_time)]] \<and>
   map (\<lambda>q. oprop q ''source'') (parseTMXMarketData (\<lambda>s. None) demo_time demo_table_html) =
     [JStr ''TMX PowerStream'']"
proof -
  note g = parse_never_raises [where parse = "\<lambda>s. None" and now = demo_time
      and htmlText = "''garbage''"]
  note t = parse_never_raises [where parse = "\<lambda>s. None" and now = demo_time
      and htmlText = demo_table_html]
  have "parseTMXMarketData (\<lambda>s. None) demo_time ''garbage'' = [debug_record demo_time ''garbage'']"
    using g by simp
  moreover have "oprop (debug_record demo_time ''garbage'') ''rawHtmlLength'' = JNum 7"
    using g by simp
  moreover have "map (\<lambda>q. oprop q ''source'') (parseTMXMarketData (\<lambda>s. None) demo_time demo_table_html) =
     [JStr ''TMX PowerStream'']"
    using t unparsed_no_embedded [of demo_table_html] by (simp add: demo_table_result)
  ultimately show ?thesis
    by (simp add: unparsed_no_embedded demo_table_result)
qed

end
